theory Spec2Isabelle
  imports Main
begin

section \<open>JavaScript values used by the NFS volume provisioning workflow\<close>

text \<open>
  The workflow tasks of \<^verbatim>\<open>provisionChain\<close> exchange JSON documents with VMAPI and VOLAPI.
  A value that JavaScript calls \<^verbatim>\<open>undefined\<close> is \<open>None\<close> of an option type throughout.
  Numbers are never inspected by the tasks; they carry an integer payload here.
\<close>

datatype json =
    JNull
  | JBool bool
  | JNum int
  | JStr string
  | JArr "json list"
  | JObj "(string \<times> json) list"

text \<open>
  An error object: \<^verbatim>\<open>new Error(msg)\<close> has the name \<^verbatim>\<open>Error\<close> and no \<^verbatim>\<open>restCode\<close>; the
  errors of the service clients carry a \<^verbatim>\<open>restCode\<close>.
\<close>

datatype js_error = JsError (err_name: string) (err_message: string) (restCode: "string option")

definition new_Error :: "string \<Rightarrow> js_error" where
  "new_Error msg = JsError ''Error'' msg None"

text \<open>\<^verbatim>\<open>'' + err\<close> calls \<^verbatim>\<open>Error.prototype.toString\<close>.\<close>

definition error_toString :: "js_error \<Rightarrow> string" where
  "error_toString e =
     (if err_message e = [] then err_name e
      else if err_name e = [] then err_message e
      else err_name e @ '': '' @ err_message e)"

text \<open>
  Objects used as dictionaries keep their keys in insertion order (the keys are volume names
  and UUIDs, not array indices): an assignment \<^verbatim>\<open>o[k] = v\<close> replaces the value of an existing key in place and
  appends a new key.
\<close>

fun obj_set :: "(string \<times> 'a) list \<Rightarrow> string \<Rightarrow> 'a \<Rightarrow> (string \<times> 'a) list" where
  "obj_set [] k v = [(k, v)]"
| "obj_set ((k', v') # kvs) k v =
     (if k' = k then (k, v) # kvs else (k', v') # obj_set kvs k v)"

definition obj_get :: "(string \<times> 'a) list \<Rightarrow> string \<Rightarrow> 'a option" where
  "obj_get kvs k = map_of kvs k"

definition obj_keys :: "(string \<times> 'a) list \<Rightarrow> string list" where
  "obj_keys kvs = map fst kvs"

section \<open>Volume records and the VOLAPI client\<close>

record volume =
  vol_uuid :: string
  vol_name :: string
  vol_owner_uuid :: string
  vol_state :: string
  vol_filesystem_path :: "string option"

record getVolume_params =
  gv_uuid :: string
  gv_owner_uuid :: string

text \<open>The arguments a client hands to its callback: \<^verbatim>\<open>(err, value)\<close>.\<close>

type_synonym getVolume_result = "js_error option \<times> volume option"

section \<open>waitForNfsVolumeProvisions: the readiness poll of one volume\<close>

text \<open>
  What one run of \<^verbatim>\<open>checkVolumeCreated\<close> has done when it calls \<^verbatim>\<open>done\<close>: the argument of
  \<^verbatim>\<open>done\<close>, the number of \<^verbatim>\<open>getVolume\<close> requests sent, the delays handed to \<^verbatim>\<open>setTimeout\<close>
  (in milliseconds, oldest first) and \<^verbatim>\<open>job.createdVolumes\<close> as it left it.
\<close>

record poll_result =
  done_err :: "js_error option"
  fetches :: nat
  timeouts :: "nat list"
  created :: "(string \<times> volume) list"

text \<open>
  \<^verbatim>\<open>checkVolumeReady\<close> re-arms itself with \<^verbatim>\<open>setTimeout(checkVolumeReady, 1000)\<close> until a
  request fails or the volume is ready, so it need not return: the model is a partial
  function, and \<open>None\<close> means that \<^verbatim>\<open>done\<close> is never called. The client is an oracle:
  \<open>getVolume p n\<close> is the answer to the request with parameters \<open>p\<close> that follows \<open>n\<close> earlier
  requests of this poll. \<open>ts\<close> are the delays waited so far.
\<close>

partial_function (option) checkVolumeReady ::
  "(getVolume_params \<Rightarrow> nat \<Rightarrow> getVolume_result) \<Rightarrow> string \<Rightarrow> string \<Rightarrow> nat \<Rightarrow> nat list \<Rightarrow>
   (string \<times> volume) list \<Rightarrow> poll_result option"
where
  "checkVolumeReady getVolume nfsVolumeUuid owner n ts createdVolumes =
     (case getVolume \<lparr>gv_uuid = nfsVolumeUuid, gv_owner_uuid = owner\<rparr> n of
        (Some getVolumeErr, vol) \<Rightarrow>
          Some \<lparr>done_err = Some getVolumeErr, fetches = Suc n, timeouts = ts,
                created = createdVolumes\<rparr>
      | (None, Some vol) \<Rightarrow>
          if vol_state vol = ''ready''
          then Some \<lparr>done_err = None, fetches = Suc n, timeouts = ts,
                     created = obj_set createdVolumes (vol_uuid vol) vol\<rparr>
          else checkVolumeReady getVolume nfsVolumeUuid owner (Suc n) (ts @ [1000]) createdVolumes
      | (None, None) \<Rightarrow>
          checkVolumeReady getVolume nfsVolumeUuid owner (Suc n) (ts @ [1000]) createdVolumes)"

text \<open>A request that succeeded without showing a ready volume.\<close>

definition not_ready :: "getVolume_result \<Rightarrow> bool" where
  "not_ready r = (case r of
       (Some e, vol) \<Rightarrow> False
     | (None, None) \<Rightarrow> True
     | (None, Some vol) \<Rightarrow> vol_state vol \<noteq> ''ready'')"

text \<open>
  A partial function shows the poll that ends, not the one that goes on. What the poll has
  done so far is shown by the same body run on a number of answers: \<open>Called_done r\<close> when
  the poll has called \<^verbatim>\<open>done\<close>, and \<open>Pending n ts\<close> when its \<open>n\<close> requests were all answered,
  the delays \<open>ts\<close> were handed to \<^verbatim>\<open>setTimeout\<close> and the next run of \<^verbatim>\<open>checkVolumeReady\<close>
  is due.
\<close>

datatype poll_progress = Pending nat "nat list" | Called_done poll_result

fun checkVolumeReady_after ::
  "(getVolume_params \<Rightarrow> nat \<Rightarrow> getVolume_result) \<Rightarrow> string \<Rightarrow> string \<Rightarrow> nat \<Rightarrow> nat \<Rightarrow>
   nat list \<Rightarrow> (string \<times> volume) list \<Rightarrow> poll_progress"
where
  "checkVolumeReady_after getVolume nfsVolumeUuid owner 0 n ts createdVolumes = Pending n ts"
| "checkVolumeReady_after getVolume nfsVolumeUuid owner (Suc answers) n ts createdVolumes =
     (case getVolume \<lparr>gv_uuid = nfsVolumeUuid, gv_owner_uuid = owner\<rparr> n of
        (Some getVolumeErr, vol) \<Rightarrow>
          Called_done \<lparr>done_err = Some getVolumeErr, fetches = Suc n, timeouts = ts,
                        created = createdVolumes\<rparr>
      | (None, Some vol) \<Rightarrow>
          if vol_state vol = ''ready''
          then Called_done \<lparr>done_err = None, fetches = Suc n, timeouts = ts,
                             created = obj_set createdVolumes (vol_uuid vol) vol\<rparr>
          else checkVolumeReady_after getVolume nfsVolumeUuid owner answers (Suc n)
                 (ts @ [1000]) createdVolumes
      | (None, None) \<Rightarrow>
          checkVolumeReady_after getVolume nfsVolumeUuid owner answers (Suc n)
            (ts @ [1000]) createdVolumes)"

section \<open>VM records and the object heap\<close>

text \<open>
  \<^verbatim>\<open>job.vm.internal_metadata\<close> is an object that other tasks may hold a reference to, and
  \<^verbatim>\<open>buildNfsVolumesMetadata\<close> writes a property of an object: objects of this kind live in
  a heap and are named by their address. The property values are JSON values (immutable in
  the model), \<open>next_addr\<close> is the first address never handed out.
\<close>

type_synonym addr = nat

record heap =
  cells :: "addr \<Rightarrow> (string \<times> json) list"
  next_addr :: addr

definition heap_set :: "heap \<Rightarrow> addr \<Rightarrow> string \<Rightarrow> json \<Rightarrow> heap" where
  "heap_set h a k v = h\<lparr>cells := (cells h)(a := obj_set (cells h a) k v)\<rparr>"

text \<open>
  \<^verbatim>\<open>jsprim.deepCopy\<close>: \<^verbatim>\<open>undefined\<close> is returned as it is, an object is copied into a
  new object. The property values of the model are values, not references, so copying the
  property list copies at every depth.
\<close>

definition deepCopy :: "heap \<Rightarrow> addr option \<Rightarrow> addr option \<times> heap" where
  "deepCopy h obj =
     (case obj of
        None \<Rightarrow> (None, h)
      | Some a \<Rightarrow>
          (Some (next_addr h),
           h\<lparr>cells := (cells h)(next_addr h := cells h a), next_addr := Suc (next_addr h)\<rparr>))"

record nic =
  nic_tag :: "string option"
  network_uuid :: "string option"

text \<open>
  \<open>vm_internal_metadata\<close> is \<open>None\<close> when the VM has no such property. A property that
  holds a value which is not an object is not represented: \<^verbatim>\<open>loadRequiredNfsVolumes\<close>
  rejects it like a missing one.
\<close>

record vm =
  vm_uuid :: string
  vm_owner_uuid :: string
  vm_internal_metadata :: "addr option"
  vm_nics :: "nic list"

record getVm_params =
  gvm_uuid :: string
  gvm_owner_uuid :: "string option"

type_synonym getVm_result = "js_error option \<times> vm option"

section \<open>The job, the library functions and the outcome of a task\<close>

text \<open>
  The properties of \<^verbatim>\<open>job\<close> that the tasks read or write; \<open>None\<close> is a property that was
  never assigned.
\<close>

record job =
  params_vm_uuid :: string
  params_owner_uuid :: string
  job_vm :: "vm option"
  job_mapRequiredNfsVolumes :: "(string \<times> json) list option"
  job_createdVolumes :: "(string \<times> volume) list option"
  job_requiredNfsVolumes :: "json option"
  job_updatedVmInternalMetadata :: "addr option"
  job_stringifiedRequiredNfsVolumesMetadata :: "json option"

text \<open>The context object of the pipeline in \<^verbatim>\<open>provisionNfsVolumes\<close>.\<close>

record provision_ctx =
  ctx_mapRequiredNfsVolumes :: "(string \<times> json) list option"
  ctx_createdVolumes :: "(string \<times> volume) list option"

text \<open>One element of the array that \<^verbatim>\<open>buildNfsVolumesMetadata\<close> serializes.\<close>

record nfs_entry =
  nfsvolume :: "string option"
  mountpoint :: "json option"

text \<open>
  Functions of the JavaScript runtime and of the libraries, which are not part of the
  repository, are parameters of the model: \<^verbatim>\<open>JSON.parse\<close> (\<open>None\<close> when it throws),
  \<^verbatim>\<open>JSON.stringify\<close> on the array of entries, the conversion of a value that is not a string
  to a property key, and the error with which vasync reports the failures of a
  \<^verbatim>\<open>forEachParallel\<close>.
\<close>

record js_lib =
  JSON_parse :: "string \<Rightarrow> json option"
  JSON_stringify :: "nfs_entry list \<Rightarrow> string"
  ToString :: "json \<Rightarrow> string"
  MultiError :: "js_error list \<Rightarrow> js_error"

text \<open>
  A task or a pipeline stage ends by calling its callback with \<^verbatim>\<open>(err, value)\<close>, or by
  throwing a \<^verbatim>\<open>TypeError\<close> when it reads a property of \<^verbatim>\<open>undefined\<close>.
\<close>

datatype 'a outcome = Callback "js_error option" "'a option" | Throws

text \<open>\<^verbatim>\<open>o.k\<close> for a parsed JSON value \<open>o\<close> that is an object, and for the names used here.\<close>

fun get_prop :: "json \<Rightarrow> string \<Rightarrow> json option" where
  "get_prop (JObj props) k = map_of props k"
| "get_prop _ k = None"

text \<open>\<^verbatim>\<open>v !== null && typeof (v) === 'object'\<close>: arrays are objects too.\<close>

fun is_object :: "json \<Rightarrow> bool" where
  "is_object (JObj props) = True"
| "is_object (JArr elems) = True"
| "is_object _ = False"

fun is_string :: "json option \<Rightarrow> bool" where
  "is_string (Some (JStr s)) = True"
| "is_string _ = False"

fun is_array :: "json option \<Rightarrow> bool" where
  "is_array (Some (JArr elems)) = True"
| "is_array _ = False"

text \<open>The key under which \<^verbatim>\<open>o[v] = ...\<close> stores.\<close>

fun property_key :: "js_lib \<Rightarrow> json option \<Rightarrow> string" where
  "property_key lib None = ''undefined''"
| "property_key lib (Some (JStr s)) = s"
| "property_key lib (Some v) = ToString lib v"

section \<open>provisionNfsVolumes: loadRequiredNfsVolumes\<close>

text \<open>
  The \<^verbatim>\<open>try\<close> block: the callback invocations it makes and the value left in
  \<^verbatim>\<open>parsedRequiredNfsVolumes\<close>. The \<^verbatim>\<open>catch\<close> clause calls the callback and does not return.
\<close>

definition parseRequiredNfsVolumes ::
  "js_lib \<Rightarrow> json option \<Rightarrow> js_error option list \<times> json option" where
  "parseRequiredNfsVolumes lib requiredNfsVolumesString =
     (case requiredNfsVolumesString of
        Some (JStr s) \<Rightarrow>
          if s \<noteq> [] then
            (case JSON_parse lib s of
               None \<Rightarrow>
                 ([Some (new_Error
                    ''Could not parse docker:nfs_volumes_required internal metadata'')], None)
             | Some parsed \<Rightarrow> ([], Some parsed))
          else ([], None)
      | _ \<Rightarrow> ([], None))"

text \<open>
  The \<^verbatim>\<open>forEach\<close> over the parsed array: the \<^verbatim>\<open>return\<close> after the callback leaves the
  function passed to \<^verbatim>\<open>forEach\<close> only, and the iteration goes on with the next element.
\<close>

fun forEachRequiredVolume ::
  "js_lib \<Rightarrow> json list \<Rightarrow> (string \<times> json) list \<Rightarrow> js_error option list \<times> (string \<times> json) list"
where
  "forEachRequiredVolume lib [] mapRequiredNfsVolumes = ([], mapRequiredNfsVolumes)"
| "forEachRequiredVolume lib (requiredVolume # rest) mapRequiredNfsVolumes =
     (if \<not> is_object requiredVolume then
        (case forEachRequiredVolume lib rest mapRequiredNfsVolumes of
           (cbs, m) \<Rightarrow> (Some (new_Error ''requiredVolume must be an object'') # cbs, m))
      else
        forEachRequiredVolume lib rest
          (obj_set mapRequiredNfsVolumes
             (property_key lib (get_prop requiredVolume ''name'')) requiredVolume))"

text \<open>
  \<^verbatim>\<open>loadRequiredNfsVolumes\<close> returns every invocation of its callback, in order (the argument
  of each: an error or none), with the job and the context as it leaves them.
\<close>

definition loadRequiredNfsVolumes ::
  "js_lib \<Rightarrow> (getVm_params \<Rightarrow> nat \<Rightarrow> getVm_result) \<Rightarrow> heap \<Rightarrow> job \<Rightarrow> provision_ctx \<Rightarrow>
   js_error option list \<times> job \<times> provision_ctx"
where
  "loadRequiredNfsVolumes lib getVm h job ctx =
     (case getVm \<lparr>gvm_uuid = params_vm_uuid job, gvm_owner_uuid = None\<rparr> 0 of
        (err, None) \<Rightarrow>
          ([Some (new_Error (''Could not get VM with uuid '' @ params_vm_uuid job))], job, ctx)
      | (err, Some vm) \<Rightarrow>
          (case vm_internal_metadata vm of
             None \<Rightarrow>
               ([Some (new_Error ''internal_metadata property missing from VM object'')],
                job\<lparr>job_vm := Some vm\<rparr>, ctx)
           | Some a \<Rightarrow>
               (let requiredNfsVolumesString =
                      obj_get (cells h a) ''docker:nfs_volumes_required''
                in
                if requiredNfsVolumesString \<noteq> None \<and> \<not> is_string requiredNfsVolumesString
                then
                  ([Some (new_Error (''docker:nfs_volumes_required internal_metadata ''
                      @ ''property must be a string if present''))],
                   job\<lparr>job_vm := Some vm\<rparr>, ctx)
                else
                  (case parseRequiredNfsVolumes lib requiredNfsVolumesString of
                     (parseCbs, Some (JArr parsedRequiredNfsVolumes)) \<Rightarrow>
                       (case forEachRequiredVolume lib parsedRequiredNfsVolumes [] of
                          (cbs, mapRequiredNfsVolumes) \<Rightarrow>
                            (parseCbs @ cbs @ [err],
                             job\<lparr>job_vm := Some vm,
                                 job_mapRequiredNfsVolumes := Some mapRequiredNfsVolumes\<rparr>,
                             ctx\<lparr>ctx_mapRequiredNfsVolumes := Some mapRequiredNfsVolumes\<rparr>))
                   | (parseCbs, _) \<Rightarrow>
                       (parseCbs @ [Some (new_Error (''docker:nfs_volumes_required internal ''
                           @ ''metadata must represent an array''))],
                        job\<lparr>job_vm := Some vm\<rparr>, ctx)))))"

section \<open>provisionNfsVolumes: provisionNfsVolume\<close>

record createVolume_params =
  cv_name :: string
  cv_owner_uuid :: string
  cv_type :: string
  cv_networks :: "string option list"

record listVolumes_params =
  lv_name :: string
  lv_owner_uuid :: string

datatype volapi_call =
    CreateVolume createVolume_params
  | ListVolumes listVolumes_params

text \<open>
  The VOLAPI client as the provisioning step sees it: a request is answered from the state
  \<open>'s\<close> of the service, which it may change.
\<close>

record 's volapi =
  createVolume :: "createVolume_params \<Rightarrow> 's \<Rightarrow> (js_error option \<times> volume option) \<times> 's"
  listVolumes :: "listVolumes_params \<Rightarrow> 's \<Rightarrow> (js_error option \<times> volume list option) \<times> 's"

text \<open>
  The function mapped over \<^verbatim>\<open>job.vm.nics\<close>. Its elements are objects here, so the branch
  for an element that is not an object is not taken. A function that returns nothing
  returns \<^verbatim>\<open>undefined\<close>.
\<close>

definition getOverlayNetwork :: "nic \<Rightarrow> string option" where
  "getOverlayNetwork network =
     (case nic_tag network of
        None \<Rightarrow> None
      | Some tag \<Rightarrow>
          if tag \<noteq> [] \<and> take (length ''sdc_overlay/'') tag = ''sdc_overlay/''
          then network_uuid network
          else None)"

definition createVolume_request :: "string \<Rightarrow> vm \<Rightarrow> string \<Rightarrow> createVolume_params" where
  "createVolume_request owner jobvm volumeName =
     \<lparr>cv_name = volumeName, cv_owner_uuid = owner, cv_type = ''tritonnfs'',
      cv_networks = map getOverlayNetwork (vm_nics jobvm)\<rparr>"

text \<open>
  \<^verbatim>\<open>provisionNfsVolume\<close> for one volume name (always a string: a key of an object), with
  \<^verbatim>\<open>job.params.owner_uuid\<close> and \<^verbatim>\<open>job.vm\<close>. It returns the arguments of its callback, the
  requests it sent and the state of the service.
\<close>

definition provisionNfsVolume ::
  "'s volapi \<Rightarrow> string \<Rightarrow> vm \<Rightarrow> string \<Rightarrow> 's \<Rightarrow> volume outcome \<times> volapi_call list \<times> 's"
where
  "provisionNfsVolume client owner jobvm volumeName s =
     (case createVolume client (createVolume_request owner jobvm volumeName) s of
        ((volumeCreationErr, createdVolume), s1) \<Rightarrow>
          if (case volumeCreationErr of
                None \<Rightarrow> False
              | Some e \<Rightarrow> restCode e = Some ''VOLUME_ALREADY_EXISTS'')
          then
            (case listVolumes client \<lparr>lv_name = volumeName, lv_owner_uuid = owner\<rparr> s1 of
               ((listVolumesErr, volumes), s2) \<Rightarrow>
                 (case listVolumesErr of
                    Some e \<Rightarrow> Callback listVolumesErr None
                  | None \<Rightarrow>
                      (case volumes of
                         Some [loadedVolume] \<Rightarrow> Callback None (Some loadedVolume)
                       | _ \<Rightarrow>
                           Callback (Some (new_Error
                             (''There must be either no or one volume with name ''
                               @ volumeName @ '' for user '' @ owner))) None),
                  [CreateVolume (createVolume_request owner jobvm volumeName),
                   ListVolumes \<lparr>lv_name = volumeName, lv_owner_uuid = owner\<rparr>],
                  s2))
          else
            (Callback volumeCreationErr createdVolume,
             [CreateVolume (createVolume_request owner jobvm volumeName)], s1))"

section \<open>provisionNfsVolumes: provisionRequiredNfsVolumes and the pipeline\<close>

text \<open>
  \<^verbatim>\<open>vasync.forEachParallel\<close> starts one \<^verbatim>\<open>provisionNfsVolume\<close> for each name and waits for
  all of them. The order in which the service answers is not fixed; the model takes the
  schedule in which it serves the names one after the other, in the order of the keys.
  The result lists the outcome of every operation.
\<close>

fun forEachParallel_provision ::
  "'s volapi \<Rightarrow> string \<Rightarrow> vm \<Rightarrow> string list \<Rightarrow> 's \<Rightarrow>
   volume outcome list \<times> volapi_call list \<times> 's"
where
  "forEachParallel_provision client owner jobvm [] s = ([], [], s)"
| "forEachParallel_provision client owner jobvm (volumeName # rest) s =
     (case provisionNfsVolume client owner jobvm volumeName s of
        (r, calls, s1) \<Rightarrow>
          (case forEachParallel_provision client owner jobvm rest s1 of
             (rs, calls', s2) \<Rightarrow> (r # rs, calls @ calls', s2)))"

text \<open>The errors of the operations that failed.\<close>

fun operation_errors :: "'a outcome list \<Rightarrow> js_error list" where
  "operation_errors [] = []"
| "operation_errors (Callback (Some e) v # rs) = e # operation_errors rs"
| "operation_errors (r # rs) = operation_errors rs"

text \<open>
  The loop over \<^verbatim>\<open>results.operations\<close>: \<open>None\<close> when an operation has no result object, in
  which case \<^verbatim>\<open>ctx.createdVolumes\<close> is not assigned.
\<close>

fun collectCreatedVolumes ::
  "volume outcome list \<Rightarrow> (string \<times> volume) list \<Rightarrow> (string \<times> volume) list option"
where
  "collectCreatedVolumes [] createdVolumes = Some createdVolumes"
| "collectCreatedVolumes (Callback e (Some operationResult) # rs) createdVolumes =
     collectCreatedVolumes rs (obj_set createdVolumes (vol_uuid operationResult) operationResult)"
| "collectCreatedVolumes (r # rs) createdVolumes = None"

text \<open>
  The second stage of the pipeline. \<^verbatim>\<open>job.vm\<close> is read by \<^verbatim>\<open>provisionNfsVolume\<close> only, so a
  job without a VM throws there.
\<close>

definition provisionRequiredNfsVolumes ::
  "js_lib \<Rightarrow> 's volapi \<Rightarrow> job \<Rightarrow> provision_ctx \<Rightarrow> 's \<Rightarrow>
   unit outcome \<times> volapi_call list \<times> provision_ctx \<times> 's"
where
  "provisionRequiredNfsVolumes lib client job ctx s =
     (case ctx_mapRequiredNfsVolumes ctx of
        None \<Rightarrow>
          (Callback (Some (new_Error ''ctx.mapRequiredNfsVolumes must be an object'')) None,
           [], ctx, s)
      | Some mapRequiredNfsVolumes \<Rightarrow>
          if obj_keys mapRequiredNfsVolumes = []
          then (Callback None None, [], ctx\<lparr>ctx_createdVolumes := Some []\<rparr>, s)
          else
            (case job_vm job of
               None \<Rightarrow> (Throws, [], ctx\<lparr>ctx_createdVolumes := Some []\<rparr>, s)
             | Some jobvm \<Rightarrow>
                 (case forEachParallel_provision client (params_owner_uuid job) jobvm
                         (obj_keys mapRequiredNfsVolumes) s of
                    (operations, calls, s1) \<Rightarrow>
                      if operation_errors operations = [] then
                        (case collectCreatedVolumes operations [] of
                           None \<Rightarrow>
                             (Callback (Some (new_Error ''operationResult must be an object''))
                                None,
                              calls, ctx\<lparr>ctx_createdVolumes := Some []\<rparr>, s1)
                         | Some createdVolumes \<Rightarrow>
                             (Callback None None, calls,
                              ctx\<lparr>ctx_createdVolumes := Some createdVolumes\<rparr>, s1))
                      else
                        (Callback (Some (MultiError lib (operation_errors operations))) None,
                         calls, ctx\<lparr>ctx_createdVolumes := Some []\<rparr>, s1))))"

text \<open>
  The task \<^verbatim>\<open>provisionNfsVolumes\<close>: \<^verbatim>\<open>vasync.pipeline\<close> runs the second stage when the first
  one calls back without an error, and ends with the error of the stage that fails. The
  first invocation of the callback of a stage decides; what the library does with a later
  invocation is not modelled. \<open>None\<close>: the callback of the task is never called.
\<close>

definition provisionNfsVolumes ::
  "js_lib \<Rightarrow> (getVm_params \<Rightarrow> nat \<Rightarrow> getVm_result) \<Rightarrow> 's volapi \<Rightarrow> heap \<Rightarrow> job \<Rightarrow> 's \<Rightarrow>
   (string outcome \<times> volapi_call list \<times> job \<times> 's) option"
where
  "provisionNfsVolumes lib getVm client h job s =
     (case loadRequiredNfsVolumes lib getVm h job
             \<lparr>ctx_mapRequiredNfsVolumes = None, ctx_createdVolumes = None\<rparr> of
        ([], job1, ctx1) \<Rightarrow> None
      | (Some err # later, job1, ctx1) \<Rightarrow>
          Some (Callback (Some (new_Error
                  (''Could not provision volumes, reason: '' @ error_toString err))) None,
                [], job1, s)
      | (None # later, job1, ctx1) \<Rightarrow>
          (case provisionRequiredNfsVolumes lib client job1 ctx1 s of
             (Throws, calls, ctx2, s1) \<Rightarrow> Some (Throws, calls, job1, s1)
           | (Callback (Some err) v, calls, ctx2, s1) \<Rightarrow>
               Some (Callback (Some (new_Error
                       (''Could not provision volumes, reason: '' @ error_toString err))) None,
                     calls, job1, s1)
           | (Callback None v, calls, ctx2, s1) \<Rightarrow>
               Some (Callback None (Some ''All volumes provisioned''), calls,
                     job1\<lparr>job_createdVolumes := ctx_createdVolumes ctx2\<rparr>, s1)))"

section \<open>A storage-management service with unique volume names\<close>

text \<open>
  Modelled from the spec: the storage-management service (VOLAPI) is a separate service, of
  which the repository holds the client calls only. The interface of the spec,
  \<^verbatim>\<open>createVolume({name, owner_uuid, type, networks}) -> record | DuplicateNameError\<close> and
  \<^verbatim>\<open>listVolumes({name, owner_uuid}) -> [record]\<close>, with the duplicate-name conflict being
  "resource with this name already exists for this owner": the state is the list of the
  volumes; a new volume gets the UUID that \<open>new_uuid\<close> gives for the number of volumes and
  starts in the state \<^verbatim>\<open>creating\<close>.
\<close>

definition same_name_owner :: "string \<Rightarrow> string \<Rightarrow> volume \<Rightarrow> bool" where
  "same_name_owner n ow v = (vol_name v = n \<and> vol_owner_uuid v = ow)"

definition store_createVolume ::
  "(nat \<Rightarrow> string) \<Rightarrow> createVolume_params \<Rightarrow> volume list \<Rightarrow>
   (js_error option \<times> volume option) \<times> volume list"
where
  "store_createVolume new_uuid p vols =
     (if filter (same_name_owner (cv_name p) (cv_owner_uuid p)) vols \<noteq> []
      then ((Some (JsError ''VolumeAlreadyExistsError'' ''Volume already exists''
                     (Some ''VOLUME_ALREADY_EXISTS'')), None), vols)
      else
        ((None, Some \<lparr>vol_uuid = new_uuid (length vols), vol_name = cv_name p,
                      vol_owner_uuid = cv_owner_uuid p, vol_state = ''creating'',
                      vol_filesystem_path = None\<rparr>),
         vols @ [\<lparr>vol_uuid = new_uuid (length vols), vol_name = cv_name p,
                  vol_owner_uuid = cv_owner_uuid p, vol_state = ''creating'',
                  vol_filesystem_path = None\<rparr>]))"

definition store_listVolumes ::
  "listVolumes_params \<Rightarrow> volume list \<Rightarrow> (js_error option \<times> volume list option) \<times> volume list"
where
  "store_listVolumes p vols =
     ((None, Some (filter (same_name_owner (lv_name p) (lv_owner_uuid p)) vols)), vols)"

definition store_volapi :: "(nat \<Rightarrow> string) \<Rightarrow> volume list volapi" where
  "store_volapi new_uuid =
     \<lparr>createVolume = store_createVolume new_uuid, listVolumes = store_listVolumes\<rparr>"

section \<open>waitForNfsVolumeProvisions: the task\<close>

text \<open>
  \<^verbatim>\<open>vasync.forEachParallel\<close> over \<^verbatim>\<open>Object.keys(job.createdVolumes)\<close>: it calls back once
  every poll has called \<^verbatim>\<open>done\<close>, so it never does when one of them never does. The polls
  share \<^verbatim>\<open>job.createdVolumes\<close>; the model lets them write in the order of the keys. The
  result lists the errors passed to \<^verbatim>\<open>done\<close>. The inputs are keys of an object, so the test
  that \<^verbatim>\<open>nfsVolumeUuid\<close> is a string cannot fail.
\<close>

fun forEachParallel_checkVolumeCreated ::
  "(getVolume_params \<Rightarrow> nat \<Rightarrow> getVolume_result) \<Rightarrow> string \<Rightarrow> string list \<Rightarrow>
   (string \<times> volume) list \<Rightarrow> (js_error list \<times> (string \<times> volume) list) option"
where
  "forEachParallel_checkVolumeCreated getVolume owner [] createdVolumes =
     Some ([], createdVolumes)"
| "forEachParallel_checkVolumeCreated getVolume owner (nfsVolumeUuid # rest) createdVolumes =
     (case checkVolumeReady getVolume nfsVolumeUuid owner 0 [] createdVolumes of
        None \<Rightarrow> None
      | Some r \<Rightarrow>
          (case forEachParallel_checkVolumeCreated getVolume owner rest (created r) of
             None \<Rightarrow> None
           | Some (errs, createdVolumes') \<Rightarrow>
               Some ((case done_err r of None \<Rightarrow> [] | Some e \<Rightarrow> [e]) @ errs,
                     createdVolumes')))"

definition waitForNfsVolumeProvisions ::
  "(getVolume_params \<Rightarrow> nat \<Rightarrow> getVolume_result) \<Rightarrow> job \<Rightarrow> (string outcome \<times> job) option"
where
  "waitForNfsVolumeProvisions getVolume job =
     (if job_requiredNfsVolumes job \<noteq> None \<and> \<not> is_array (job_requiredNfsVolumes job)
      then Some (Callback (Some (new_Error
                   ''job.requiredNfsVolumes must be an array if present'')) None, job)
      else
        (case job_createdVolumes job of
           None \<Rightarrow> Some (Callback None (Some ''No required NFS volume to wait for''), job)
         | Some createdVolumes \<Rightarrow>
             if obj_keys createdVolumes = []
             then Some (Callback None (Some ''No required NFS volume to wait for''), job)
             else
               (case forEachParallel_checkVolumeCreated getVolume (params_owner_uuid job)
                       (obj_keys createdVolumes) createdVolumes of
                  None \<Rightarrow> None
                | Some (errs, createdVolumes') \<Rightarrow>
                    Some (if errs \<noteq> []
                          then Callback (Some (new_Error
                                 ''Could not determine if all required volumes are ready'')) None
                          else Callback None (Some ''All required volumes ready''),
                          job\<lparr>job_createdVolumes := Some createdVolumes'\<rparr>))))"

text \<open>
  An entry of \<^verbatim>\<open>job.createdVolumes\<close> that a poll has written: a ready volume under its own
  UUID, returned by one of the requests for that UUID.
\<close>

definition fetched_ready ::
  "(getVolume_params \<Rightarrow> nat \<Rightarrow> getVolume_result) \<Rightarrow> string \<Rightarrow> string \<times> volume \<Rightarrow> bool"
where
  "fetched_ready getVolume owner kv =
     (vol_state (snd kv) = ''ready'' \<and> vol_uuid (snd kv) = fst kv
      \<and> (\<exists>m. getVolume \<lparr>gv_uuid = fst kv, gv_owner_uuid = owner\<rparr> m = (None, Some (snd kv))))"

text \<open>
  Modelled from the spec: the storage-management service is not part of the repository.
  Its \<^verbatim>\<open>getVolume({uuid, owner_uuid}) -> record\<close> fetches an entity by identity, so the record
  it returns is the one of the UUID asked for; and of a created-volume record the
  \<^verbatim>\<open>filesystem_path\<close> "is only meaningful once \<^verbatim>\<open>state == ready\<close>", so a record in the state
  \<^verbatim>\<open>ready\<close> has one.
\<close>

definition conforming_getVolume :: "(getVolume_params \<Rightarrow> nat \<Rightarrow> getVolume_result) \<Rightarrow> bool" where
  "conforming_getVolume getVolume =
     (\<forall>p n vol. getVolume p n = (None, Some vol) \<longrightarrow>
        vol_uuid vol = gv_uuid p
        \<and> (vol_state vol = ''ready'' \<longrightarrow> vol_filesystem_path vol \<noteq> None))"

section \<open>buildNfsVolumesMetadata\<close>

text \<open>
  The loop over \<^verbatim>\<open>job.createdVolumes\<close>. Reading \<^verbatim>\<open>.mountpoint\<close> of a descriptor that
  \<^verbatim>\<open>job.mapRequiredNfsVolumes\<close> does not hold, or a property of a map that was never
  assigned, throws: \<open>None\<close>.
\<close>

fun nfsVolumesMetadata_of ::
  "(string \<times> json) list option \<Rightarrow> volume list \<Rightarrow> nfs_entry list option"
where
  "nfsVolumesMetadata_of mapRequiredNfsVolumes [] = Some []"
| "nfsVolumesMetadata_of mapRequiredNfsVolumes (vol # rest) =
     (case mapRequiredNfsVolumes of
        None \<Rightarrow> None
      | Some m \<Rightarrow>
          (case obj_get m (vol_name vol) of
             None \<Rightarrow> None
           | Some requiredVolume \<Rightarrow>
               (case nfsVolumesMetadata_of mapRequiredNfsVolumes rest of
                  None \<Rightarrow> None
                | Some entries \<Rightarrow>
                    Some (\<lparr>nfsvolume = vol_filesystem_path vol,
                           mountpoint = get_prop requiredVolume ''mountpoint''\<rparr> # entries))))"

text \<open>
  The task returns its outcome, the heap and the job. The copy of the metadata is made
  before the test for created volumes; the only property of the job it assigns is
  \<^verbatim>\<open>updatedVmInternalMetadata\<close>.
\<close>

definition buildNfsVolumesMetadata ::
  "js_lib \<Rightarrow> heap \<Rightarrow> job \<Rightarrow> string outcome \<times> heap \<times> job"
where
  "buildNfsVolumesMetadata lib h job =
     (case job_vm job of
        None \<Rightarrow> (Callback (Some (new_Error ''job.vm must be an object'')) None, h, job)
      | Some jobvm \<Rightarrow>
          (case job_createdVolumes job of
             None \<Rightarrow>
               (Callback (Some (new_Error ''job.createdVolumes must be an object'')) None,
                h, job)
           | Some createdVolumes \<Rightarrow>
               (case deepCopy h (vm_internal_metadata jobvm) of
                  (vmInternalMetadata, h1) \<Rightarrow>
                    if obj_keys createdVolumes = [] then
                      (Callback None
                         (Some (''No NFS volume with which to update VM'' @ [CHR 0x27]
                                 @ ''s internal metadata'')),
                       h1, job)
                    else
                      (case nfsVolumesMetadata_of (job_mapRequiredNfsVolumes job)
                              (map snd createdVolumes) of
                         None \<Rightarrow> (Throws, h1, job)
                       | Some nfsVolumesMetadata \<Rightarrow>
                           (case vmInternalMetadata of
                              None \<Rightarrow> (Throws, h1, job)
                            | Some copy \<Rightarrow>
                                (Callback None
                                   (Some (''Built docker:nfsvolumes internal_metadata:''
                                           @ JSON_stringify lib nfsVolumesMetadata)),
                                 heap_set h1 copy ''docker:nfsvolumes''
                                   (JStr (JSON_stringify lib nfsVolumesMetadata)),
                                 job\<lparr>job_updatedVmInternalMetadata := Some copy\<rparr>))))))"

section \<open>waitForNfsVolumesMetadataUpdated\<close>

text \<open>
  \<^verbatim>\<open>checkMetadataUpdated\<close> re-arms itself like the readiness poll. It returns the outcome
  of the task, the number of \<^verbatim>\<open>getVm\<close> requests and the delays waited. A response without
  error and without VM makes \<^verbatim>\<open>vm.internal_metadata\<close> throw. The comparison \<^verbatim>\<open>===\<close> with a
  string holds for the same string only.
\<close>

partial_function (option) checkMetadataUpdated ::
  "(getVm_params \<Rightarrow> nat \<Rightarrow> getVm_result) \<Rightarrow> heap \<Rightarrow> vm \<Rightarrow> string \<Rightarrow> nat \<Rightarrow> nat list \<Rightarrow>
   (string outcome \<times> nat \<times> nat list) option"
where
  "checkMetadataUpdated getVm h jobvm stringifiedRequiredNfsVolumesMetadata n ts =
     (case getVm \<lparr>gvm_uuid = vm_uuid jobvm, gvm_owner_uuid = Some (vm_owner_uuid jobvm)\<rparr> n of
        (Some err, fetched) \<Rightarrow>
          Some (Callback (Some (new_Error
                  (''Error when getting VM: '' @ error_toString err))) None, Suc n, ts)
      | (None, None) \<Rightarrow> Some (Throws, Suc n, ts)
      | (None, Some fetched) \<Rightarrow>
          if (case vm_internal_metadata fetched of
                None \<Rightarrow> None
              | Some a \<Rightarrow> obj_get (cells h a) ''docker:nfsvolumes'')
             = Some (JStr stringifiedRequiredNfsVolumesMetadata)
          then Some (Callback None (Some ''NFS volumes metadata updated successfully''),
                     Suc n, ts)
          else checkMetadataUpdated getVm h jobvm stringifiedRequiredNfsVolumesMetadata
                 (Suc n) (ts @ [1000]))"

definition waitForNfsVolumesMetadataUpdated ::
  "(getVm_params \<Rightarrow> nat \<Rightarrow> getVm_result) \<Rightarrow> heap \<Rightarrow> job \<Rightarrow>
   (string outcome \<times> nat \<times> nat list) option"
where
  "waitForNfsVolumesMetadataUpdated getVm h job =
     (case job_vm job of
        None \<Rightarrow> Some (Callback (Some (new_Error ''job.vm must be an object'')) None, 0, [])
      | Some jobvm \<Rightarrow>
          (case job_stringifiedRequiredNfsVolumesMetadata job of
             Some (JStr stringifiedRequiredNfsVolumesMetadata) \<Rightarrow>
               (case job_createdVolumes job of
                  None \<Rightarrow>
                    Some (Callback (Some (new_Error
                            ''job.createdVolumes must be an object'')) None, 0, [])
                | Some createdVolumes \<Rightarrow>
                    if obj_keys createdVolumes = []
                    then Some (Callback None
                                 (Some (''No NFS volume with which to update VM'' @ [CHR 0x27]
                                         @ ''s internal metadata'')), 0, [])
                    else checkMetadataUpdated getVm h jobvm
                           stringifiedRequiredNfsVolumesMetadata 0 [])
           | _ \<Rightarrow>
               Some (Callback (Some (new_Error
                       ''job.stringifiedRequiredNfsVolumesMetadata must be a string'')) None,
                     0, [])))"

section \<open>Sample volumes, services and jobs\<close>

definition sample_volume :: "string \<Rightarrow> string \<Rightarrow> volume" where
  "sample_volume u st =
     \<lparr>vol_uuid = u, vol_name = ''data'', vol_owner_uuid = ''owner-1'', vol_state = st,
      vol_filesystem_path = (if st = ''ready'' then Some ''10.0.0.5:/exports/data'' else None)\<rparr>"

text \<open>A volume that is \<^verbatim>\<open>creating\<close> for the first \<open>N\<close> requests and \<^verbatim>\<open>ready\<close> from then on.\<close>

definition getVolume_ready_after :: "nat \<Rightarrow> getVolume_params \<Rightarrow> nat \<Rightarrow> getVolume_result" where
  "getVolume_ready_after N p n =
     (if n < N then (None, Some (sample_volume (gv_uuid p) ''creating''))
      else (None, Some (sample_volume (gv_uuid p) ''ready'')))"

text \<open>A volume that is \<^verbatim>\<open>creating\<close> for the first \<open>N\<close> requests, after which the request fails.\<close>

definition getVolume_error_after :: "nat \<Rightarrow> getVolume_params \<Rightarrow> nat \<Rightarrow> getVolume_result" where
  "getVolume_error_after N p n =
     (if n < N then (None, Some (sample_volume (gv_uuid p) ''creating''))
      else (Some (JsError ''InternalError'' ''volapi is down'' (Some ''InternalError'')), None))"

text \<open>A volume whose creation failed for good.\<close>

definition getVolume_failed :: "getVolume_params \<Rightarrow> nat \<Rightarrow> getVolume_result" where
  "getVolume_failed p n = (None, Some (sample_volume (gv_uuid p) ''failed''))"

definition sample_vm :: vm where
  "sample_vm =
     \<lparr>vm_uuid = ''vm-1'', vm_owner_uuid = ''owner-1'', vm_internal_metadata = Some 0,
      vm_nics = [\<lparr>nic_tag = Some ''sdc_overlay/4242'', network_uuid = Some ''net-fabric''\<rparr>,
                 \<lparr>nic_tag = Some ''external'', network_uuid = Some ''net-external''\<rparr>]\<rparr>"

definition sample_new_uuid :: "nat \<Rightarrow> string" where
  "sample_new_uuid n = ''vol-'' @ replicate n (CHR ''i'')"

text \<open>
  The library functions on the documents of the examples: \<open>sample_parse\<close> knows four JSON
  texts and throws on every other string (\<^verbatim>\<open>{\<close> is one that \<^verbatim>\<open>JSON.parse\<close> rejects),
  \<open>sample_stringify\<close> knows the array with the one entry of the examples.
\<close>

definition sample_parse :: "string \<Rightarrow> json option" where
  "sample_parse s =
     (if s = ''[]'' then Some (JArr [])
      else if s = ''{}'' then Some (JObj [])
      else if s = ''[1]'' then Some (JArr [JNum 1])
      else if s = ''[{\"name\":\"data\",\"mountpoint\":\"/data\"}]''
        then Some (JArr [JObj [(''name'', JStr ''data''), (''mountpoint'', JStr ''/data'')]])
      else None)"

definition sample_stringify :: "nfs_entry list \<Rightarrow> string" where
  "sample_stringify entries =
     (if entries = [\<lparr>nfsvolume = Some ''10.0.0.5:/exports/data'',
                       mountpoint = Some (JStr ''/data'')\<rparr>]
      then ''[{\"nfsvolume\":\"10.0.0.5:/exports/data\",\"mountpoint\":\"/data\"}]''
      else ''[]'')"

definition sample_lib :: js_lib where
  "sample_lib =
     \<lparr>JSON_parse = sample_parse, JSON_stringify = sample_stringify,
      ToString = (\<lambda>v. ''[object Object]''),
      MultiError = (\<lambda>errs. JsError ''MultiError''
                      (case errs of [] \<Rightarrow> [] | e # es \<Rightarrow> err_message e) None)\<rparr>"

text \<open>A heap whose only object, at address 0, is the metadata of the sample VM.\<close>

definition sample_heap :: "(string \<times> json) list \<Rightarrow> heap" where
  "sample_heap internal_metadata = \<lparr>cells = (\<lambda>a. [])(0 := internal_metadata), next_addr = 1\<rparr>"

definition sample_getVm :: "getVm_params \<Rightarrow> nat \<Rightarrow> getVm_result" where
  "sample_getVm p n = (None, Some sample_vm)"

text \<open>A job on which no task has run yet.\<close>

definition sample_job :: job where
  "sample_job =
     \<lparr>params_vm_uuid = ''vm-1'', params_owner_uuid = ''owner-1'', job_vm = None,
      job_mapRequiredNfsVolumes = None, job_createdVolumes = None,
      job_requiredNfsVolumes = None, job_updatedVmInternalMetadata = None,
      job_stringifiedRequiredNfsVolumesMetadata = None\<rparr>"

text \<open>
  The job after the volume \<^verbatim>\<open>data\<close> was provisioned as \<open>u\<close> and seen in the state \<open>st\<close>.
\<close>

definition sample_job_with_volume :: "string \<Rightarrow> string \<Rightarrow> job" where
  "sample_job_with_volume u st =
     sample_job\<lparr>job_vm := Some sample_vm,
       job_mapRequiredNfsVolumes :=
         Some [(''data'', JObj [(''name'', JStr ''data''), (''mountpoint'', JStr ''/data'')])],
       job_createdVolumes := Some [(u, sample_volume u st)]\<rparr>"

text \<open>
  A VMAPI on which the update has arrived: the metadata of the VM it returns is the object
  at address 1.
\<close>

definition sample_getVm_updated :: "getVm_params \<Rightarrow> nat \<Rightarrow> getVm_result" where
  "sample_getVm_updated p n = (None, Some (sample_vm\<lparr>vm_internal_metadata := Some 1\<rparr>))"

text \<open>
  A VOLAPI that answers every request with the ready volume \<^verbatim>\<open>vol-2\<close>, whatever UUID is
  asked for.
\<close>

definition getVolume_other_uuid :: "getVolume_params \<Rightarrow> nat \<Rightarrow> getVolume_result" where
  "getVolume_other_uuid p n = (None, Some (sample_volume ''vol-2'' ''ready''))"

section \<open>Properties of the readiness poll\<close>

lemma not_ready_step:
  assumes "not_ready (getVolume \<lparr>gv_uuid = u, gv_owner_uuid = ow\<rparr> n)"
  shows "checkVolumeReady getVolume u ow n ts cv =
         checkVolumeReady getVolume u ow (Suc n) (ts @ [1000]) cv"
  using assms
  by (subst checkVolumeReady.simps) (auto simp: not_ready_def split: prod.splits option.splits)

lemma poll_after_not_ready:
  assumes "\<forall>k<N. not_ready (getVolume \<lparr>gv_uuid = u, gv_owner_uuid = ow\<rparr> (n + k))"
  shows "checkVolumeReady getVolume u ow n ts cv =
         checkVolumeReady getVolume u ow (n + N) (ts @ replicate N 1000) cv"
  using assms
proof (induction N arbitrary: n ts)
  case 0
  then show ?case by simp
next
  case (Suc N)
  have "not_ready (getVolume \<lparr>gv_uuid = u, gv_owner_uuid = ow\<rparr> n)"
    using Suc.prems[rule_format, of 0] by simp
  then have "checkVolumeReady getVolume u ow n ts cv =
    checkVolumeReady getVolume u ow (Suc n) (ts @ [1000]) cv" by (rule not_ready_step)
  also have "\<dots> = checkVolumeReady getVolume u ow (Suc n + N) ((ts @ [1000]) @ replicate N 1000) cv"
  proof (rule Suc.IH)
    show "\<forall>k<N. not_ready (getVolume \<lparr>gv_uuid = u, gv_owner_uuid = ow\<rparr> (Suc n + k))"
      using Suc.prems by (metis Suc_less_eq add_Suc_right add_Suc)
  qed
  finally show ?case by (simp add: replicate_app_Cons_same)
qed

text \<open>
  C5: when the first \<open>N\<close> requests of a poll succeed without showing a ready volume, and
  request \<open>N + 1\<close> shows a ready volume, the poll calls \<^verbatim>\<open>done\<close> without error after exactly
  \<open>N + 1\<close> requests and \<open>N\<close> delays of 1000 ms, having stored that volume in
  \<^verbatim>\<open>job.createdVolumes\<close> under its UUID; when request \<open>N + 1\<close> fails instead, the poll calls
  \<^verbatim>\<open>done\<close> with that error after the same \<open>N + 1\<close> requests, without a further request, and
  leaves \<^verbatim>\<open>job.createdVolumes\<close> as it was.
\<close>

theorem checkVolumeReady_converges:
  assumes "\<forall>k<N. not_ready (getVolume \<lparr>gv_uuid = u, gv_owner_uuid = ow\<rparr> k)"
  shows "(\<forall>vol. getVolume \<lparr>gv_uuid = u, gv_owner_uuid = ow\<rparr> N = (None, Some vol)
            \<and> vol_state vol = ''ready'' \<longrightarrow>
          checkVolumeReady getVolume u ow 0 [] cv =
            Some \<lparr>done_err = None, fetches = N + 1, timeouts = replicate N 1000,
                  created = obj_set cv (vol_uuid vol) vol\<rparr>)
       \<and> (\<forall>e vol. getVolume \<lparr>gv_uuid = u, gv_owner_uuid = ow\<rparr> N = (Some e, vol) \<longrightarrow>
          checkVolumeReady getVolume u ow 0 [] cv =
            Some \<lparr>done_err = Some e, fetches = N + 1, timeouts = replicate N 1000,
                  created = cv\<rparr>)"
proof -
  have run: "checkVolumeReady getVolume u ow 0 [] cv =
             checkVolumeReady getVolume u ow N (replicate N 1000) cv"
    using poll_after_not_ready[of N getVolume u ow 0 "[]" cv] assms by simp
  have ready: "checkVolumeReady getVolume u ow N (replicate N 1000) cv =
      Some \<lparr>done_err = None, fetches = N + 1, timeouts = replicate N 1000,
            created = obj_set cv (vol_uuid vol) vol\<rparr>"
    if "getVolume \<lparr>gv_uuid = u, gv_owner_uuid = ow\<rparr> N = (None, Some vol)"
      and "vol_state vol = ''ready''" for vol
    using that by (subst checkVolumeReady.simps) simp
  have failed: "checkVolumeReady getVolume u ow N (replicate N 1000) cv =
      Some \<lparr>done_err = Some e, fetches = N + 1, timeouts = replicate N 1000, created = cv\<rparr>"
    if "getVolume \<lparr>gv_uuid = u, gv_owner_uuid = ow\<rparr> N = (Some e, vol)" for e vol
    using that by (subst checkVolumeReady.simps) simp
  show ?thesis
    unfolding run using ready failed by blast
qed

theorem checkVolumeReady_converges_witness:
  "checkVolumeReady (getVolume_ready_after 2) ''vol-1'' ''owner-1'' 0 [] [] =
     Some \<lparr>done_err = None, fetches = 3, timeouts = [1000, 1000],
           created = [(''vol-1'', sample_volume ''vol-1'' ''ready'')]\<rparr>
   \<and> checkVolumeReady (getVolume_error_after 2) ''vol-1'' ''owner-1'' 0 [] [] =
     Some \<lparr>done_err = Some (JsError ''InternalError'' ''volapi is down'' (Some ''InternalError'')),
           fetches = 3, timeouts = [1000, 1000], created = []\<rparr>"
proof -
  have a: "\<forall>k<2. not_ready (getVolume_ready_after 2 \<lparr>gv_uuid = ''vol-1'', gv_owner_uuid = ''owner-1''\<rparr> k)"
    by (simp add: not_ready_def getVolume_ready_after_def sample_volume_def)
  have b: "\<forall>k<2. not_ready (getVolume_error_after 2 \<lparr>gv_uuid = ''vol-1'', gv_owner_uuid = ''owner-1''\<rparr> k)"
    by (simp add: not_ready_def getVolume_error_after_def sample_volume_def)
  show ?thesis
    using checkVolumeReady_converges[of 2 "getVolume_ready_after 2" "''vol-1''" "''owner-1''" "[]", OF a]
      checkVolumeReady_converges[of 2 "getVolume_error_after 2" "''vol-1''" "''owner-1''" "[]", OF b]
    by (simp add: getVolume_ready_after_def getVolume_error_after_def sample_volume_def
        numeral_2_eq_2)
qed

text \<open>
  The poll run on a number of answers and the partial function are the same poll: one has
  called \<^verbatim>\<open>done\<close> after some number of answers exactly when the other has a result, and the
  results agree.
\<close>

lemma checkVolumeReady_after_not_ready:
  assumes "\<forall>j<k. not_ready (getVolume \<lparr>gv_uuid = u, gv_owner_uuid = ow\<rparr> (n + j))"
  shows "checkVolumeReady_after getVolume u ow k n ts cv =
         Pending (n + k) (ts @ replicate k 1000)"
  using assms
proof (induction k arbitrary: n ts)
  case 0
  then show ?case by simp
next
  case (Suc k)
  have now: "not_ready (getVolume \<lparr>gv_uuid = u, gv_owner_uuid = ow\<rparr> n)"
    using Suc.prems[rule_format, of 0] by simp
  have later: "\<forall>j<k. not_ready (getVolume \<lparr>gv_uuid = u, gv_owner_uuid = ow\<rparr> (Suc n + j))"
    using Suc.prems by (metis Suc_less_eq add_Suc_right add_Suc)
  from now have "checkVolumeReady_after getVolume u ow (Suc k) n ts cv =
      checkVolumeReady_after getVolume u ow k (Suc n) (ts @ [1000]) cv"
    by (auto simp: not_ready_def split: prod.splits option.splits)
  also have "\<dots> = Pending (Suc n + k) ((ts @ [1000]) @ replicate k 1000)"
    by (rule Suc.IH[OF later])
  finally show ?case by (simp add: replicate_app_Cons_same)
qed

lemma checkVolumeReady_after_Called_done:
  assumes "checkVolumeReady_after getVolume u ow k n ts cv = Called_done r"
  shows "checkVolumeReady getVolume u ow n ts cv = Some r"
  using assms
proof (induction k arbitrary: n ts)
  case 0
  then show ?case by simp
next
  case (Suc k)
  show ?case
  proof (cases "not_ready (getVolume \<lparr>gv_uuid = u, gv_owner_uuid = ow\<rparr> n)")
    case True
    then have "checkVolumeReady_after getVolume u ow k (Suc n) (ts @ [1000]) cv = Called_done r"
      using Suc.prems by (auto simp: not_ready_def split: prod.splits option.splits)
    then have "checkVolumeReady getVolume u ow (Suc n) (ts @ [1000]) cv = Some r"
      by (rule Suc.IH)
    with not_ready_step[of getVolume u ow n ts cv] True show ?thesis by simp
  next
    case False
    with Suc.prems show ?thesis
      by (subst checkVolumeReady.simps)
        (auto simp: not_ready_def split: prod.splits option.splits if_splits)
  qed
qed

lemma checkVolumeReady_Some_after:
  assumes "checkVolumeReady getVolume u ow n ts cv = Some r"
  shows "\<exists>k. checkVolumeReady_after getVolume u ow k n ts cv = Called_done r"
proof (rule checkVolumeReady.raw_induct
    [where P = "\<lambda>g u' ow' n ts cv r. \<exists>k. checkVolumeReady_after g u' ow' k n ts cv = Called_done r",
     OF _ assms])
  fix f :: "(getVolume_params \<Rightarrow> nat \<Rightarrow> getVolume_result) \<Rightarrow> string \<Rightarrow> string \<Rightarrow> nat \<Rightarrow>
            nat list \<Rightarrow> (string \<times> volume) list \<Rightarrow> poll_result option"
  fix g u' ow' n ts cv r
  assume IH: "\<And>g u' ow' n ts cv r. f g u' ow' n ts cv = Some r \<Longrightarrow>
      \<exists>k. checkVolumeReady_after g u' ow' k n ts cv = Called_done r"
  assume step: "(case g \<lparr>gv_uuid = u', gv_owner_uuid = ow'\<rparr> n of
        (Some getVolumeErr, vol) \<Rightarrow>
          Some \<lparr>done_err = Some getVolumeErr, fetches = Suc n, timeouts = ts,
                created = cv\<rparr>
      | (None, Some vol) \<Rightarrow>
          if vol_state vol = ''ready''
          then Some \<lparr>done_err = None, fetches = Suc n, timeouts = ts,
                     created = obj_set cv (vol_uuid vol) vol\<rparr>
          else f g u' ow' (Suc n) (ts @ [1000]) cv
      | (None, None) \<Rightarrow> f g u' ow' (Suc n) (ts @ [1000]) cv) = Some r"
  show "\<exists>k. checkVolumeReady_after g u' ow' k n ts cv = Called_done r"
  proof (cases "not_ready (g \<lparr>gv_uuid = u', gv_owner_uuid = ow'\<rparr> n)")
    case True
    with step have "f g u' ow' (Suc n) (ts @ [1000]) cv = Some r"
      by (auto simp: not_ready_def split: prod.splits option.splits if_splits)
    from IH[OF this] obtain k where
      "checkVolumeReady_after g u' ow' k (Suc n) (ts @ [1000]) cv = Called_done r" ..
    with True have "checkVolumeReady_after g u' ow' (Suc k) n ts cv = Called_done r"
      by (auto simp: not_ready_def split: prod.splits option.splits)
    then show ?thesis ..
  next
    case False
    with step have "checkVolumeReady_after g u' ow' (Suc 0) n ts cv = Called_done r"
      by (auto simp: not_ready_def split: prod.splits option.splits if_splits)
    then show ?thesis ..
  qed
qed

text \<open>
  C9: the poll tests for the state \<^verbatim>\<open>ready\<close> only. When every request succeeds and none shows
  a ready volume (a volume that stays \<^verbatim>\<open>failed\<close>, say), then after every number \<open>k\<close> of
  answers the poll has sent \<open>k\<close> more requests, has armed \<open>k\<close> more timers of 1000 ms, one
  after each answer, and is due to send the next request; and it never calls \<^verbatim>\<open>done\<close>.
\<close>

theorem checkVolumeReady_never_ready:
  assumes "\<forall>k. not_ready (getVolume \<lparr>gv_uuid = u, gv_owner_uuid = ow\<rparr> k)"
  shows "(\<forall>k. checkVolumeReady_after getVolume u ow k n ts cv =
               Pending (n + k) (ts @ replicate k 1000))
       \<and> checkVolumeReady getVolume u ow n ts cv = None"
proof
  show pending: "\<forall>k. checkVolumeReady_after getVolume u ow k n ts cv =
                   Pending (n + k) (ts @ replicate k 1000)"
    using assms by (simp add: checkVolumeReady_after_not_ready)
  show "checkVolumeReady getVolume u ow n ts cv = None"
  proof (rule ccontr)
    assume "checkVolumeReady getVolume u ow n ts cv \<noteq> None"
    then obtain r where "checkVolumeReady getVolume u ow n ts cv = Some r" by auto
    from checkVolumeReady_Some_after[OF this] obtain k where
      "checkVolumeReady_after getVolume u ow k n ts cv = Called_done r" ..
    with pending show False by simp
  qed
qed

theorem checkVolumeReady_never_ready_witness:
  "checkVolumeReady_after getVolume_failed ''vol-1'' ''owner-1'' 3 0 [] [] =
     Pending 3 [1000, 1000, 1000]
   \<and> checkVolumeReady getVolume_failed ''vol-1'' ''owner-1'' 0 [] [] = None"
proof -
  have "\<forall>k. not_ready (getVolume_failed \<lparr>gv_uuid = ''vol-1'', gv_owner_uuid = ''owner-1''\<rparr> k)"
    by (simp add: not_ready_def getVolume_failed_def sample_volume_def)
  with checkVolumeReady_never_ready
         [of getVolume_failed "''vol-1''" "''owner-1''" 0 "[]" "[]"]
  have all: "\<forall>k. checkVolumeReady_after getVolume_failed ''vol-1'' ''owner-1'' k 0 [] [] =
                 Pending (0 + k) ([] @ replicate k 1000)"
    and none: "checkVolumeReady getVolume_failed ''vol-1'' ''owner-1'' 0 [] [] = None"
    by blast+
  from all[rule_format, of 3] none show ?thesis
    by (simp add: numeral_3_eq_3)
qed

section \<open>Properties of provisionNfsVolume\<close>

text \<open>
  C3: when \<^verbatim>\<open>createVolume\<close> answers with the error \<^verbatim>\<open>VOLUME_ALREADY_EXISTS\<close> and the
  \<^verbatim>\<open>listVolumes\<close> request by the same name and owner succeeds, \<^verbatim>\<open>provisionNfsVolume\<close> ends
  with the listed volume when there is exactly one, and with an error and no volume when the
  list is missing, empty or longer than one. In both cases it has sent these two requests
  and no other.
\<close>

theorem provisionNfsVolume_conflict_lookup:
  assumes "createVolume client (createVolume_request owner jobvm volumeName) s = ((Some e, cvol), s1)"
    and "restCode e = Some ''VOLUME_ALREADY_EXISTS''"
    and "listVolumes client \<lparr>lv_name = volumeName, lv_owner_uuid = owner\<rparr> s1 = ((None, volumes), s2)"
  shows "(\<forall>v. volumes = Some [v] \<longrightarrow>
            provisionNfsVolume client owner jobvm volumeName s =
              (Callback None (Some v),
               [CreateVolume (createVolume_request owner jobvm volumeName),
                ListVolumes \<lparr>lv_name = volumeName, lv_owner_uuid = owner\<rparr>], s2))
       \<and> (volumes = None \<or> (\<exists>vs. volumes = Some vs \<and> length vs \<noteq> 1) \<longrightarrow>
            provisionNfsVolume client owner jobvm volumeName s =
              (Callback (Some (new_Error (''There must be either no or one volume with name ''
                                 @ volumeName @ '' for user '' @ owner))) None,
               [CreateVolume (createVolume_request owner jobvm volumeName),
                ListVolumes \<lparr>lv_name = volumeName, lv_owner_uuid = owner\<rparr>], s2))"
proof (intro conjI allI impI)
  fix v assume "volumes = Some [v]"
  with assms show "provisionNfsVolume client owner jobvm volumeName s =
              (Callback None (Some v),
               [CreateVolume (createVolume_request owner jobvm volumeName),
                ListVolumes \<lparr>lv_name = volumeName, lv_owner_uuid = owner\<rparr>], s2)"
    by (simp add: provisionNfsVolume_def)
next
  assume "volumes = None \<or> (\<exists>vs. volumes = Some vs \<and> length vs \<noteq> 1)"
  then consider "volumes = None" | "volumes = Some []"
    | a b vs where "volumes = Some (a # b # vs)"
    by (metis One_nat_def length_0_conv length_Suc_conv list.exhaust list.size(3,4) Suc_eq_plus1)
  then show "provisionNfsVolume client owner jobvm volumeName s =
              (Callback (Some (new_Error (''There must be either no or one volume with name ''
                                 @ volumeName @ '' for user '' @ owner))) None,
               [CreateVolume (createVolume_request owner jobvm volumeName),
                ListVolumes \<lparr>lv_name = volumeName, lv_owner_uuid = owner\<rparr>], s2)"
    using assms by cases (simp_all add: provisionNfsVolume_def)
qed

theorem provisionNfsVolume_conflict_lookup_witness:
  "provisionNfsVolume (store_volapi sample_new_uuid) ''owner-1'' sample_vm ''data''
     [sample_volume ''vol-a'' ''ready''] =
     (Callback None (Some (sample_volume ''vol-a'' ''ready'')),
      [CreateVolume (createVolume_request ''owner-1'' sample_vm ''data''),
       ListVolumes \<lparr>lv_name = ''data'', lv_owner_uuid = ''owner-1''\<rparr>],
      [sample_volume ''vol-a'' ''ready''])
   \<and> provisionNfsVolume (store_volapi sample_new_uuid) ''owner-1'' sample_vm ''data''
     [sample_volume ''vol-a'' ''ready'', sample_volume ''vol-b'' ''ready''] =
     (Callback (Some (new_Error
        ''There must be either no or one volume with name data for user owner-1'')) None,
      [CreateVolume (createVolume_request ''owner-1'' sample_vm ''data''),
       ListVolumes \<lparr>lv_name = ''data'', lv_owner_uuid = ''owner-1''\<rparr>],
      [sample_volume ''vol-a'' ''ready'', sample_volume ''vol-b'' ''ready''])"
  using provisionNfsVolume_conflict_lookup
          [of "store_volapi sample_new_uuid" "''owner-1''" sample_vm "''data''"
              "[sample_volume ''vol-a'' ''ready'']"
              "JsError ''VolumeAlreadyExistsError'' ''Volume already exists''
                 (Some ''VOLUME_ALREADY_EXISTS'')" None
              "[sample_volume ''vol-a'' ''ready'']"
              "Some [sample_volume ''vol-a'' ''ready'']"
              "[sample_volume ''vol-a'' ''ready'']"]
        provisionNfsVolume_conflict_lookup
          [of "store_volapi sample_new_uuid" "''owner-1''" sample_vm "''data''"
              "[sample_volume ''vol-a'' ''ready'', sample_volume ''vol-b'' ''ready'']"
              "JsError ''VolumeAlreadyExistsError'' ''Volume already exists''
                 (Some ''VOLUME_ALREADY_EXISTS'')" None
              "[sample_volume ''vol-a'' ''ready'', sample_volume ''vol-b'' ''ready'']"
              "Some [sample_volume ''vol-a'' ''ready'', sample_volume ''vol-b'' ''ready'']"
              "[sample_volume ''vol-a'' ''ready'', sample_volume ''vol-b'' ''ready'']"]
  by (simp add: store_volapi_def store_createVolume_def store_listVolumes_def
        same_name_owner_def sample_volume_def createVolume_request_def)

text \<open>
  On the service with unique volume names, a name that the owner already has is resolved
  by the lookup, and the service keeps its state.
\<close>

lemma store_conflict:
  assumes "filter (same_name_owner volumeName owner) vols = [v]"
  shows "provisionNfsVolume (store_volapi new_uuid) owner jobvm volumeName vols =
           (Callback None (Some v),
            [CreateVolume (createVolume_request owner jobvm volumeName),
             ListVolumes \<lparr>lv_name = volumeName, lv_owner_uuid = owner\<rparr>], vols)"
  using assms
  by (simp add: provisionNfsVolume_def store_volapi_def store_createVolume_def
        store_listVolumes_def createVolume_request_def)

text \<open>
  C4: provisioning is idempotent on the service with unique volume names. After a first
  \<^verbatim>\<open>provisionNfsVolume\<close> that ended with a volume, the volume of that name exists: a second
  \<^verbatim>\<open>provisionNfsVolume\<close> for the same owner, VM and name is answered by \<^verbatim>\<open>createVolume\<close> with
  the duplicate-name conflict, goes through \<^verbatim>\<open>listVolumes\<close>, ends with a volume of the same
  UUID and leaves the volumes of the service as they were.
\<close>

theorem provisionNfsVolume_idempotent:
  assumes "provisionNfsVolume (store_volapi new_uuid) owner jobvm volumeName vols =
             (Callback None (Some v1), calls1, vols1)"
  shows "(\<exists>e. createVolume (store_volapi new_uuid)
                 (createVolume_request owner jobvm volumeName) vols1 = ((Some e, None), vols1)
              \<and> restCode e = Some ''VOLUME_ALREADY_EXISTS'')
       \<and> (\<exists>v2. provisionNfsVolume (store_volapi new_uuid) owner jobvm volumeName vols1 =
                (Callback None (Some v2),
                 [CreateVolume (createVolume_request owner jobvm volumeName),
                  ListVolumes \<lparr>lv_name = volumeName, lv_owner_uuid = owner\<rparr>], vols1)
              \<and> vol_uuid v2 = vol_uuid v1)"
proof -
  have one: "filter (same_name_owner volumeName owner) vols1 = [v1]"
  proof (cases "filter (same_name_owner volumeName owner) vols = []")
    case True
    with assms show ?thesis
      by (auto simp: provisionNfsVolume_def store_volapi_def store_createVolume_def
          store_listVolumes_def createVolume_request_def same_name_owner_def)
  next
    case False
    with assms show ?thesis
      by (auto simp: provisionNfsVolume_def store_volapi_def store_createVolume_def
          store_listVolumes_def createVolume_request_def
          split: list.splits if_splits)
  qed
  have conflict: "createVolume (store_volapi new_uuid)
      (createVolume_request owner jobvm volumeName) vols1 =
      ((Some (JsError ''VolumeAlreadyExistsError'' ''Volume already exists''
                (Some ''VOLUME_ALREADY_EXISTS'')), None), vols1)"
    using one by (simp add: store_volapi_def store_createVolume_def createVolume_request_def)
  show ?thesis
    using conflict store_conflict[OF one, of new_uuid jobvm] by auto
qed

theorem provisionNfsVolume_idempotent_witness:
  "provisionNfsVolume (store_volapi sample_new_uuid) ''owner-1'' sample_vm ''data'' [] =
     (Callback None (Some (sample_volume ''vol-'' ''creating'')),
      [CreateVolume (createVolume_request ''owner-1'' sample_vm ''data'')],
      [sample_volume ''vol-'' ''creating''])
   \<and> (\<exists>v2. provisionNfsVolume (store_volapi sample_new_uuid) ''owner-1'' sample_vm ''data''
              [sample_volume ''vol-'' ''creating''] =
            (Callback None (Some v2),
             [CreateVolume (createVolume_request ''owner-1'' sample_vm ''data''),
              ListVolumes \<lparr>lv_name = ''data'', lv_owner_uuid = ''owner-1''\<rparr>],
             [sample_volume ''vol-'' ''creating''])
          \<and> vol_uuid v2 = ''vol-'')"
proof -
  have first: "provisionNfsVolume (store_volapi sample_new_uuid) ''owner-1'' sample_vm ''data'' [] =
     (Callback None (Some (sample_volume ''vol-'' ''creating'')),
      [CreateVolume (createVolume_request ''owner-1'' sample_vm ''data'')],
      [sample_volume ''vol-'' ''creating''])"
    by (simp add: provisionNfsVolume_def store_volapi_def store_createVolume_def
        createVolume_request_def sample_volume_def sample_new_uuid_def)
  from provisionNfsVolume_idempotent[OF first] first show ?thesis
    by (simp add: sample_volume_def)
qed

section \<open>Properties of buildNfsVolumesMetadata\<close>

lemma obj_get_obj_set:
  "obj_get (obj_set m k v) k' = (if k' = k then Some v else obj_get m k')"
  by (induction m) (auto simp: obj_get_def)

text \<open>
  C8: \<^verbatim>\<open>buildNfsVolumesMetadata\<close> changes no object that existed before it ran, so the
  metadata object of \<^verbatim>\<open>job.vm\<close> is what it was, and \<^verbatim>\<open>job.vm\<close> is the same VM; the only
  property of the job it may assign is \<^verbatim>\<open>updatedVmInternalMetadata\<close>. When it succeeds with
  created volumes, that property is a new object, whose \<^verbatim>\<open>docker:nfsvolumes\<close> is the
  serialized list of entries and whose every other property is the one of the metadata of
  the VM.
\<close>

theorem buildNfsVolumesMetadata_copies:
  assumes "buildNfsVolumesMetadata lib h job = (r, h', job')"
  shows "job_vm job' = job_vm job
       \<and> (\<forall>b. b < next_addr h \<longrightarrow> cells h' b = cells h b)
       \<and> (job' = job \<or> job' = job\<lparr>job_updatedVmInternalMetadata := Some (next_addr h)\<rparr>)
       \<and> (\<forall>msg cv. r = Callback None (Some msg) \<and> job_createdVolumes job = Some cv \<and> cv \<noteq> [] \<longrightarrow>
            (\<exists>jobvm a entries.
               job_vm job = Some jobvm \<and> vm_internal_metadata jobvm = Some a
             \<and> nfsVolumesMetadata_of (job_mapRequiredNfsVolumes job) (map snd cv) = Some entries
             \<and> job_updatedVmInternalMetadata job' = Some (next_addr h)
             \<and> obj_get (cells h' (next_addr h)) ''docker:nfsvolumes''
                 = Some (JStr (JSON_stringify lib entries))
             \<and> (\<forall>k. k \<noteq> ''docker:nfsvolumes'' \<longrightarrow>
                  obj_get (cells h' (next_addr h)) k = obj_get (cells h a) k)))"
proof (cases "job_vm job")
  case None
  with assms show ?thesis by (auto simp: buildNfsVolumesMetadata_def)
next
  case vm: (Some jobvm)
  show ?thesis
  proof (cases "job_createdVolumes job")
    case None
    with vm assms show ?thesis by (auto simp: buildNfsVolumesMetadata_def)
  next
    case (Some cv)
    show ?thesis
    proof (cases "cv = []")
      case True
      with vm Some assms show ?thesis
        by (auto simp: buildNfsVolumesMetadata_def deepCopy_def obj_keys_def
            split: option.splits)
    next
      case False
      show ?thesis
      proof (cases "nfsVolumesMetadata_of (job_mapRequiredNfsVolumes job) (map snd cv)")
        case None
        with vm Some False assms show ?thesis
          by (auto simp: buildNfsVolumesMetadata_def deepCopy_def obj_keys_def
              split: option.splits)
      next
        case entries: (Some entries)
        show ?thesis
        proof (cases "vm_internal_metadata jobvm")
          case None
          with vm Some False entries assms show ?thesis
            by (auto simp: buildNfsVolumesMetadata_def deepCopy_def obj_keys_def)
        next
          case (Some a)
          with vm \<open>job_createdVolumes job = Some cv\<close> False entries assms show ?thesis
            by (auto simp: buildNfsVolumesMetadata_def deepCopy_def obj_keys_def heap_set_def
                obj_get_obj_set)
        qed
      qed
    qed
  qed
qed

theorem buildNfsVolumesMetadata_copies_witness:
  "buildNfsVolumesMetadata sample_lib
     (sample_heap [(''docker:nfs_volumes_required'',
                    JStr ''[{\"name\":\"data\",\"mountpoint\":\"/data\"}]'')])
     (sample_job_with_volume ''vol-1'' ''ready'') =
   (Callback None (Some (''Built docker:nfsvolumes internal_metadata:''
       @ ''[{\"nfsvolume\":\"10.0.0.5:/exports/data\",\"mountpoint\":\"/data\"}]'')),
    \<lparr>cells = (\<lambda>a. [])
       (0 := [(''docker:nfs_volumes_required'',
               JStr ''[{\"name\":\"data\",\"mountpoint\":\"/data\"}]'')],
        1 := [(''docker:nfs_volumes_required'',
               JStr ''[{\"name\":\"data\",\"mountpoint\":\"/data\"}]''),
              (''docker:nfsvolumes'',
               JStr ''[{\"nfsvolume\":\"10.0.0.5:/exports/data\",\"mountpoint\":\"/data\"}]'')]),
      next_addr = 2\<rparr>,
    (sample_job_with_volume ''vol-1'' ''ready'')\<lparr>job_updatedVmInternalMetadata := Some 1\<rparr>)
   \<and> job_vm ((sample_job_with_volume ''vol-1'' ''ready'')
               \<lparr>job_updatedVmInternalMetadata := Some 1\<rparr>) = Some sample_vm"
proof -
  have run: "buildNfsVolumesMetadata sample_lib
     (sample_heap [(''docker:nfs_volumes_required'',
                    JStr ''[{\"name\":\"data\",\"mountpoint\":\"/data\"}]'')])
     (sample_job_with_volume ''vol-1'' ''ready'') =
   (Callback None (Some (''Built docker:nfsvolumes internal_metadata:''
       @ ''[{\"nfsvolume\":\"10.0.0.5:/exports/data\",\"mountpoint\":\"/data\"}]'')),
    \<lparr>cells = (\<lambda>a. [])
       (0 := [(''docker:nfs_volumes_required'',
               JStr ''[{\"name\":\"data\",\"mountpoint\":\"/data\"}]'')],
        1 := [(''docker:nfs_volumes_required'',
               JStr ''[{\"name\":\"data\",\"mountpoint\":\"/data\"}]''),
              (''docker:nfsvolumes'',
               JStr ''[{\"nfsvolume\":\"10.0.0.5:/exports/data\",\"mountpoint\":\"/data\"}]'')]),
      next_addr = 2\<rparr>,
    (sample_job_with_volume ''vol-1'' ''ready'')\<lparr>job_updatedVmInternalMetadata := Some 1\<rparr>)"
    by (simp add: buildNfsVolumesMetadata_def sample_job_with_volume_def sample_job_def
        sample_vm_def sample_heap_def deepCopy_def obj_keys_def sample_volume_def obj_get_def
        sample_lib_def sample_stringify_def heap_set_def)
  from buildNfsVolumesMetadata_copies[OF run] run show ?thesis
    by (simp add: sample_job_with_volume_def)
qed

section \<open>Properties of waitForNfsVolumeProvisions\<close>

text \<open>
  A poll that calls \<^verbatim>\<open>done\<close> with an error has left \<^verbatim>\<open>job.createdVolumes\<close> alone; one that
  calls it without error has stored a ready volume that some request returned.
\<close>

lemma checkVolumeReady_done:
  assumes "checkVolumeReady getVolume u ow n ts cv = Some r"
  shows "(done_err r \<noteq> None \<and> created r = cv)
       \<or> (done_err r = None \<and>
            (\<exists>m vol. getVolume \<lparr>gv_uuid = u, gv_owner_uuid = ow\<rparr> m = (None, Some vol)
               \<and> vol_state vol = ''ready'' \<and> created r = obj_set cv (vol_uuid vol) vol))"
proof (rule checkVolumeReady.raw_induct
    [where P = "\<lambda>g u' ow' n ts cv r.
       (done_err r \<noteq> None \<and> created r = cv)
       \<or> (done_err r = None \<and>
            (\<exists>m vol. g \<lparr>gv_uuid = u', gv_owner_uuid = ow'\<rparr> m = (None, Some vol)
               \<and> vol_state vol = ''ready'' \<and> created r = obj_set cv (vol_uuid vol) vol))",
     OF _ assms])
  fix f :: "(getVolume_params \<Rightarrow> nat \<Rightarrow> getVolume_result) \<Rightarrow> string \<Rightarrow> string \<Rightarrow> nat \<Rightarrow>
            nat list \<Rightarrow> (string \<times> volume) list \<Rightarrow> poll_result option"
  fix g u' ow' n ts cv r
  assume IH: "\<And>g u' ow' n ts cv r. f g u' ow' n ts cv = Some r \<Longrightarrow>
       (done_err r \<noteq> None \<and> created r = cv)
       \<or> (done_err r = None \<and>
            (\<exists>m vol. g \<lparr>gv_uuid = u', gv_owner_uuid = ow'\<rparr> m = (None, Some vol)
               \<and> vol_state vol = ''ready'' \<and> created r = obj_set cv (vol_uuid vol) vol))"
  assume step: "(case g \<lparr>gv_uuid = u', gv_owner_uuid = ow'\<rparr> n of
        (Some getVolumeErr, vol) \<Rightarrow>
          Some \<lparr>done_err = Some getVolumeErr, fetches = Suc n, timeouts = ts,
                created = cv\<rparr>
      | (None, Some vol) \<Rightarrow>
          if vol_state vol = ''ready''
          then Some \<lparr>done_err = None, fetches = Suc n, timeouts = ts,
                     created = obj_set cv (vol_uuid vol) vol\<rparr>
          else f g u' ow' (Suc n) (ts @ [1000]) cv
      | (None, None) \<Rightarrow> f g u' ow' (Suc n) (ts @ [1000]) cv) = Some r"
  show "(done_err r \<noteq> None \<and> created r = cv)
       \<or> (done_err r = None \<and>
            (\<exists>m vol. g \<lparr>gv_uuid = u', gv_owner_uuid = ow'\<rparr> m = (None, Some vol)
               \<and> vol_state vol = ''ready'' \<and> created r = obj_set cv (vol_uuid vol) vol))"
  proof (cases "g \<lparr>gv_uuid = u', gv_owner_uuid = ow'\<rparr> n")
    case (Pair e vo)
    show ?thesis
    proof (cases e)
      case (Some err)
      with Pair step show ?thesis by auto
    next
      case None
      show ?thesis
      proof (cases vo)
        case None
        with Pair \<open>e = None\<close> step have "f g u' ow' (Suc n) (ts @ [1000]) cv = Some r" by simp
        then show ?thesis by (rule IH)
      next
        case (Some vol)
        show ?thesis
        proof (cases "vol_state vol = ''ready''")
          case True
          with Pair \<open>e = None\<close> Some step
          have "r = \<lparr>done_err = None, fetches = Suc n, timeouts = ts,
                     created = obj_set cv (vol_uuid vol) vol\<rparr>" by simp
          with Pair \<open>e = None\<close> Some True show ?thesis by auto
        next
          case False
          with Pair \<open>e = None\<close> Some step have "f g u' ow' (Suc n) (ts @ [1000]) cv = Some r"
            by simp
          then show ?thesis by (rule IH)
        qed
      qed
    qed
  qed
qed

lemma keys_obj_set: "fst ` set (obj_set m k v) = insert k (fst ` set m)"
  by (induction m k v rule: obj_set.induct) auto

lemma set_obj_set_distinct:
  assumes "distinct (map fst m)"
  shows "set (obj_set m k v) = insert (k, v) {kv \<in> set m. fst kv \<noteq> k}"
  using assms
proof (induction m k v rule: obj_set.induct)
  case (1 k v)
  then show ?case by simp
next
  case (2 k' v' kvs k v)
  show ?case
  proof (cases "k' = k")
    case True
    with 2 show ?thesis by (auto simp: rev_image_eqI)
  next
    case False
    with 2 show ?thesis by auto
  qed
qed

lemma keys_obj_set_member: "k \<in> set (map fst m) \<Longrightarrow> map fst (obj_set m k v) = map fst m"
  by (induction m k v rule: obj_set.induct) auto

lemma forEachParallel_checkVolumeCreated_ready:
  assumes "forEachParallel_checkVolumeCreated getVolume ow us cv = Some ([], cv')"
    and "\<forall>p n vol. getVolume p n = (None, Some vol) \<longrightarrow> vol_uuid vol = gv_uuid p"
    and "distinct (map fst cv)"
    and "set us \<subseteq> set (map fst cv)"
  shows "map fst cv' = map fst cv
       \<and> (\<forall>kv \<in> set cv'. fetched_ready getVolume ow kv \<or> (kv \<in> set cv \<and> fst kv \<notin> set us))"
  using assms
proof (induction us arbitrary: cv)
  case Nil
  then show ?case by simp
next
  case (Cons u us)
  from Cons.prems(1) obtain r errs where
    r: "checkVolumeReady getVolume u ow 0 [] cv = Some r"
    and rest: "forEachParallel_checkVolumeCreated getVolume ow us (created r) = Some (errs, cv')"
    and errs: "(case done_err r of None \<Rightarrow> [] | Some e \<Rightarrow> [e]) @ errs = []"
    by (auto split: option.splits)
  from errs have ok: "done_err r = None" and e0: "errs = []" by (auto split: option.splits)
  from checkVolumeReady_done[OF r] ok obtain m vol where
    vol: "getVolume \<lparr>gv_uuid = u, gv_owner_uuid = ow\<rparr> m = (None, Some vol)"
      "vol_state vol = ''ready''" "created r = obj_set cv (vol_uuid vol) vol"
    by auto
  from Cons.prems(2) vol(1) have uu: "vol_uuid vol = u" by fastforce
  have cr: "created r = obj_set cv u vol" using vol(3) uu by simp
  have u_in: "u \<in> set (map fst cv)" using Cons.prems(4) by simp
  have keys: "map fst (created r) = map fst cv" using cr keys_obj_set_member[OF u_in] by simp
  have d: "distinct (map fst (created r))" using keys Cons.prems(3) by simp
  have sub: "set us \<subseteq> set (map fst (created r))" using keys Cons.prems(4) by simp
  from Cons.IH[OF rest[unfolded e0] Cons.prems(2) d sub]
  have IH: "map fst cv' = map fst (created r)"
    "\<forall>kv\<in>set cv'. fetched_ready getVolume ow kv \<or> (kv \<in> set (created r) \<and> fst kv \<notin> set us)"
    by auto
  have setcr: "set (created r) = insert (u, vol) {kv \<in> set cv. fst kv \<noteq> u}"
    using cr set_obj_set_distinct[OF Cons.prems(3)] by simp
  have "fetched_ready getVolume ow kv \<or> (kv \<in> set cv \<and> fst kv \<notin> set (u # us))"
    if "kv \<in> set cv'" for kv
  proof -
    from IH(2) that consider "fetched_ready getVolume ow kv"
      | "kv \<in> set (created r)" "fst kv \<notin> set us" by blast
    then show ?thesis
    proof cases
      case 1 then show ?thesis by simp
    next
      case 2
      with setcr consider "kv = (u, vol)" | "kv \<in> set cv" "fst kv \<noteq> u" by blast
      then show ?thesis
      proof cases
        case 1
        then show ?thesis using vol(1,2) uu by (auto simp: fetched_ready_def)
      next
        case 2
        then show ?thesis using \<open>fst kv \<notin> set us\<close> by simp
      qed
    qed
  qed
  with IH(1) keys show ?case by simp
qed

text \<open>
  C10: when \<^verbatim>\<open>waitForNfsVolumeProvisions\<close> succeeds on a non-empty \<^verbatim>\<open>job.createdVolumes\<close>,
  against a storage-management service that answers as the spec describes it, then
  \<^verbatim>\<open>job.createdVolumes\<close> has the keys it had and every entry is a record that a
  \<^verbatim>\<open>getVolume\<close> request for its key returned: a volume in the state \<^verbatim>\<open>ready\<close>, stored under
  its own UUID, with a \<^verbatim>\<open>filesystem_path\<close>. (The keys of an object are distinct.)
\<close>

theorem waitForNfsVolumeProvisions_all_ready:
  assumes "waitForNfsVolumeProvisions getVolume job = Some (Callback None msg, job')"
    and "job_createdVolumes job = Some cv"
    and "cv \<noteq> []"
    and "distinct (obj_keys cv)"
    and "conforming_getVolume getVolume"
  shows "\<exists>cv'. job_createdVolumes job' = Some cv' \<and> obj_keys cv' = obj_keys cv
           \<and> (\<forall>kv \<in> set cv'.
                 vol_state (snd kv) = ''ready'' \<and> vol_uuid (snd kv) = fst kv
               \<and> vol_filesystem_path (snd kv) \<noteq> None
               \<and> (\<exists>m. getVolume \<lparr>gv_uuid = fst kv, gv_owner_uuid = params_owner_uuid job\<rparr> m
                        = (None, Some (snd kv))))"
proof -
  from assms(1,2,3) obtain errs cv' where
    run: "forEachParallel_checkVolumeCreated getVolume (params_owner_uuid job)
            (obj_keys cv) cv = Some (errs, cv')"
    and res: "(if errs \<noteq> []
               then Callback (Some (new_Error
                      ''Could not determine if all required volumes are ready'')) None
               else Callback None (Some ''All required volumes ready'')) = Callback None msg"
    and job': "job' = job\<lparr>job_createdVolumes := Some cv'\<rparr>"
    by (auto simp: waitForNfsVolumeProvisions_def obj_keys_def split: if_splits option.splits)
  from res have "errs = []" by (auto split: if_splits)
  with run have run': "forEachParallel_checkVolumeCreated getVolume (params_owner_uuid job)
            (obj_keys cv) cv = Some ([], cv')" by simp
  from assms(5) have by_identity:
    "\<forall>p n vol. getVolume p n = (None, Some vol) \<longrightarrow> vol_uuid vol = gv_uuid p"
    by (simp add: conforming_getVolume_def)
  from assms(5) have with_path:
    "vol_filesystem_path vol \<noteq> None"
    if "getVolume p n = (None, Some vol)" and "vol_state vol = ''ready''" for p n vol
    using that by (simp add: conforming_getVolume_def)
  from forEachParallel_checkVolumeCreated_ready[OF run' by_identity] assms(4)
  have keys: "map fst cv' = map fst cv"
    and entries: "\<forall>kv \<in> set cv'. fetched_ready getVolume (params_owner_uuid job) kv
           \<or> (kv \<in> set cv \<and> fst kv \<notin> set (obj_keys cv))"
    by (auto simp: obj_keys_def)
  have "fetched_ready getVolume (params_owner_uuid job) kv" if "kv \<in> set cv'" for kv
  proof -
    from keys that have "fst kv \<in> set (obj_keys cv)"
      by (metis image_eqI list.set_map obj_keys_def)
    with entries that show ?thesis by blast
  qed
  then have "vol_state (snd kv) = ''ready'' \<and> vol_uuid (snd kv) = fst kv
      \<and> vol_filesystem_path (snd kv) \<noteq> None
      \<and> (\<exists>m. getVolume \<lparr>gv_uuid = fst kv, gv_owner_uuid = params_owner_uuid job\<rparr> m
               = (None, Some (snd kv)))"
    if "kv \<in> set cv'" for kv
    using that with_path unfolding fetched_ready_def by blast
  with keys job' show ?thesis by (simp add: obj_keys_def)
qed

theorem waitForNfsVolumeProvisions_all_ready_witness:
  "waitForNfsVolumeProvisions (getVolume_ready_after 2)
     (sample_job_with_volume ''vol-1'' ''creating'') =
   Some (Callback None (Some ''All required volumes ready''),
         (sample_job_with_volume ''vol-1'' ''creating'')
           \<lparr>job_createdVolumes := Some [(''vol-1'', sample_volume ''vol-1'' ''ready'')]\<rparr>)
   \<and> vol_state (sample_volume ''vol-1'' ''ready'') = ''ready''
   \<and> vol_filesystem_path (sample_volume ''vol-1'' ''ready'') = Some ''10.0.0.5:/exports/data''"
proof -
  have poll: "checkVolumeReady (getVolume_ready_after 2) ''vol-1'' ''owner-1'' 0 []
      [(''vol-1'', sample_volume ''vol-1'' ''creating'')] =
      Some \<lparr>done_err = None, fetches = 3, timeouts = [1000, 1000],
            created = [(''vol-1'', sample_volume ''vol-1'' ''ready'')]\<rparr>"
    apply (subst checkVolumeReady.simps)
    apply (simp add: getVolume_ready_after_def sample_volume_def)
    apply (subst checkVolumeReady.simps)
    apply (simp add: getVolume_ready_after_def sample_volume_def)
    apply (subst checkVolumeReady.simps)
    apply (simp add: getVolume_ready_after_def sample_volume_def)
    done
  have run: "waitForNfsVolumeProvisions (getVolume_ready_after 2)
     (sample_job_with_volume ''vol-1'' ''creating'') =
   Some (Callback None (Some ''All required volumes ready''),
         (sample_job_with_volume ''vol-1'' ''creating'')
           \<lparr>job_createdVolumes := Some [(''vol-1'', sample_volume ''vol-1'' ''ready'')]\<rparr>)"
    by (simp add: waitForNfsVolumeProvisions_def sample_job_with_volume_def sample_job_def
        obj_keys_def poll)
  have cv: "job_createdVolumes (sample_job_with_volume ''vol-1'' ''creating'') =
      Some [(''vol-1'', sample_volume ''vol-1'' ''creating'')]"
    by (simp add: sample_job_with_volume_def)
  have contract: "conforming_getVolume (getVolume_ready_after 2)"
    by (auto simp: conforming_getVolume_def getVolume_ready_after_def sample_volume_def
        split: if_splits)
  have path: "vol_filesystem_path (sample_volume ''vol-1'' ''ready'') =
      Some ''10.0.0.5:/exports/data''"
    by (simp add: sample_volume_def)
  from waitForNfsVolumeProvisions_all_ready[OF run cv _ _ contract] run path show ?thesis
    by (simp add: obj_keys_def)
qed

text \<open>
  The poll stores the record under \<^verbatim>\<open>volume.uuid\<close>, so the result rests on the service
  answering with the record asked for: were the request for \<^verbatim>\<open>vol-1\<close> answered with the
  ready volume \<^verbatim>\<open>vol-2\<close>, as no service of the spec does, the step would succeed with the
  entry \<^verbatim>\<open>vol-1\<close> still in the state \<^verbatim>\<open>creating\<close>.
\<close>

lemma waitForNfsVolumeProvisions_other_uuid:
  "waitForNfsVolumeProvisions getVolume_other_uuid
     (sample_job_with_volume ''vol-1'' ''creating'') =
   Some (Callback None (Some ''All required volumes ready''),
         (sample_job_with_volume ''vol-1'' ''creating'')
           \<lparr>job_createdVolumes :=
              Some [(''vol-1'', sample_volume ''vol-1'' ''creating''),
                    (''vol-2'', sample_volume ''vol-2'' ''ready'')]\<rparr>)
   \<and> vol_state (sample_volume ''vol-1'' ''creating'') = ''creating''"
proof -
  have poll: "checkVolumeReady getVolume_other_uuid ''vol-1'' ''owner-1'' 0 []
      [(''vol-1'', sample_volume ''vol-1'' ''creating'')] =
      Some \<lparr>done_err = None, fetches = 1, timeouts = [],
            created = [(''vol-1'', sample_volume ''vol-1'' ''creating''),
                       (''vol-2'', sample_volume ''vol-2'' ''ready'')]\<rparr>"
    apply (subst checkVolumeReady.simps)
    apply (simp add: getVolume_other_uuid_def sample_volume_def)
    done
  show ?thesis
    by (simp add: waitForNfsVolumeProvisions_def sample_job_with_volume_def sample_job_def
        obj_keys_def poll) (simp add: sample_volume_def)
qed

section \<open>Where the tasks depart from their description\<close>

text \<open>
  C1 says that a VM without the \<^verbatim>\<open>docker:nfs_volumes_required\<close> property, like one whose
  property is the empty list, has no dependencies, so that the task succeeds without a
  request to VOLAPI. On the code the task fails for the VM without the property: the
  string is not parsed, \<^verbatim>\<open>parsedRequiredNfsVolumes\<close> stays \<^verbatim>\<open>undefined\<close> and the test
  \<^verbatim>\<open>Array.isArray\<close> rejects it. (No request is sent to VOLAPI.)
\<close>

theorem provisionNfsVolumes_absent_field_fails:
  "provisionNfsVolumes sample_lib sample_getVm (store_volapi sample_new_uuid)
     (sample_heap []) sample_job [] =
   Some (Callback (Some (new_Error
           (''Could not provision volumes, reason: Error: docker:nfs_volumes_required ''
             @ ''internal metadata must represent an array''))) None,
         [], sample_job\<lparr>job_vm := Some sample_vm\<rparr>, [])"
  by (simp add: provisionNfsVolumes_def loadRequiredNfsVolumes_def sample_getVm_def
      sample_job_def sample_vm_def sample_heap_def obj_get_def parseRequiredNfsVolumes_def
      new_Error_def error_toString_def)

text \<open>
  The property that holds the empty list is handled as C1 says: the task succeeds, without
  a request to VOLAPI and with no created volume.
\<close>

lemma provisionNfsVolumes_empty_list:
  "provisionNfsVolumes sample_lib sample_getVm (store_volapi sample_new_uuid)
     (sample_heap [(''docker:nfs_volumes_required'', JStr ''[]'')]) sample_job [] =
   Some (Callback None (Some ''All volumes provisioned''), [],
         sample_job\<lparr>job_vm := Some sample_vm, job_mapRequiredNfsVolumes := Some [],
           job_createdVolumes := Some []\<rparr>, [])"
  by (simp add: provisionNfsVolumes_def loadRequiredNfsVolumes_def sample_getVm_def
      sample_job_def sample_vm_def sample_heap_def obj_get_def parseRequiredNfsVolumes_def
      sample_lib_def sample_parse_def provisionRequiredNfsVolumes_def obj_keys_def)

text \<open>
  The failure does not depend on the sample VM: whenever the VM has metadata without the
  property, the first stage calls back with the error.
\<close>

lemma loadRequiredNfsVolumes_absent_field:
  assumes "getVm \<lparr>gvm_uuid = params_vm_uuid job, gvm_owner_uuid = None\<rparr> 0 = (err, Some v)"
    and "vm_internal_metadata v = Some a"
    and "obj_get (cells h a) ''docker:nfs_volumes_required'' = None"
  shows "loadRequiredNfsVolumes lib getVm h job ctx =
     ([Some (new_Error
         ''docker:nfs_volumes_required internal metadata must represent an array'')],
      job\<lparr>job_vm := Some v\<rparr>, ctx)"
  using assms by (simp add: loadRequiredNfsVolumes_def parseRequiredNfsVolumes_def)

text \<open>
  C6 says that a malformed property makes the extraction fail with one error, reported
  once. On the code a string that \<^verbatim>\<open>JSON.parse\<close> rejects makes \<^verbatim>\<open>loadRequiredNfsVolumes\<close>
  call its callback twice (the \<^verbatim>\<open>catch\<close> clause does not return), and an array with an
  element that is not an object makes it call the callback with the error and then once
  more without error (the \<^verbatim>\<open>return\<close> leaves the function passed to \<^verbatim>\<open>forEach\<close> only).
\<close>

theorem loadRequiredNfsVolumes_calls_back_twice:
  "loadRequiredNfsVolumes sample_lib sample_getVm
     (sample_heap [(''docker:nfs_volumes_required'', JStr ''{'')]) sample_job
     \<lparr>ctx_mapRequiredNfsVolumes = None, ctx_createdVolumes = None\<rparr> =
   ([Some (new_Error ''Could not parse docker:nfs_volumes_required internal metadata''),
     Some (new_Error
       ''docker:nfs_volumes_required internal metadata must represent an array'')],
    sample_job\<lparr>job_vm := Some sample_vm\<rparr>,
    \<lparr>ctx_mapRequiredNfsVolumes = None, ctx_createdVolumes = None\<rparr>)
   \<and> loadRequiredNfsVolumes sample_lib sample_getVm
     (sample_heap [(''docker:nfs_volumes_required'', JStr ''[1]'')]) sample_job
     \<lparr>ctx_mapRequiredNfsVolumes = None, ctx_createdVolumes = None\<rparr> =
   ([Some (new_Error ''requiredVolume must be an object''), None],
    sample_job\<lparr>job_vm := Some sample_vm, job_mapRequiredNfsVolumes := Some []\<rparr>,
    \<lparr>ctx_mapRequiredNfsVolumes = Some [], ctx_createdVolumes = None\<rparr>)"
  by (simp add: loadRequiredNfsVolumes_def sample_getVm_def
      sample_job_def sample_vm_def sample_heap_def obj_get_def parseRequiredNfsVolumes_def
      sample_lib_def sample_parse_def)

text \<open>
  C7 says that a NIC without the overlay tag contributes nothing to the \<^verbatim>\<open>networks\<close> of the
  \<^verbatim>\<open>createVolume\<close> request, so that a VM without overlay NICs gives the empty list. On the code
  the list is made with \<^verbatim>\<open>map\<close>: such a NIC contributes an \<^verbatim>\<open>undefined\<close> element, and a VM
  whose only NIC has the tag \<^verbatim>\<open>external\<close> gives a list of one \<^verbatim>\<open>undefined\<close>.
\<close>

theorem createVolume_request_keeps_other_nics:
  "cv_networks (createVolume_request ''owner-1''
      (sample_vm\<lparr>vm_nics := [\<lparr>nic_tag = Some ''external'',
                                 network_uuid = Some ''net-external''\<rparr>]\<rparr>) ''data'') = [None]
   \<and> cv_networks (createVolume_request ''owner-1'' sample_vm ''data'') =
       [Some ''net-fabric'', None]"
  by (simp add: createVolume_request_def getOverlayNetwork_def sample_vm_def)

text \<open>
  The list of networks always has one element for each NIC.
\<close>

lemma getOverlayNetwork_length:
  "length (cv_networks (createVolume_request owner jobvm volumeName)) = length (vm_nics jobvm)"
  by (simp add: createVolume_request_def)

text \<open>
  \<^verbatim>\<open>buildNfsVolumesMetadata\<close> never assigns the property that
  \<^verbatim>\<open>waitForNfsVolumesMetadataUpdated\<close> compares the metadata with.
\<close>

lemma buildNfsVolumesMetadata_keeps_expected_string:
  "job_stringifiedRequiredNfsVolumesMetadata (snd (snd (buildNfsVolumesMetadata lib h job))) =
   job_stringifiedRequiredNfsVolumesMetadata job"
  by (simp add: buildNfsVolumesMetadata_def split: option.splits prod.splits)

text \<open>
  C2 says that the string which \<^verbatim>\<open>buildNfsVolumesMetadata\<close> writes under
  \<^verbatim>\<open>docker:nfsvolumes\<close> is the one \<^verbatim>\<open>waitForNfsVolumesMetadataUpdated\<close> waits for. On the code
  the first task does not hand the string over: on the job it leaves,
  \<^verbatim>\<open>job.stringifiedRequiredNfsVolumesMetadata\<close> is still unassigned, and the second task
  fails with an error before any \<^verbatim>\<open>getVm\<close> request, although the metadata of the VM that
  VMAPI would return holds that very string.
\<close>

theorem waitForNfsVolumesMetadataUpdated_after_build_fails:
  "(case buildNfsVolumesMetadata sample_lib (sample_heap [])
           (sample_job_with_volume ''vol-1'' ''ready'') of
      (r, h', job') \<Rightarrow>
        r = Callback None (Some (''Built docker:nfsvolumes internal_metadata:''
              @ ''[{\"nfsvolume\":\"10.0.0.5:/exports/data\",\"mountpoint\":\"/data\"}]''))
      \<and> obj_get (cells h' 1) ''docker:nfsvolumes'' =
          Some (JStr ''[{\"nfsvolume\":\"10.0.0.5:/exports/data\",\"mountpoint\":\"/data\"}]'')
      \<and> job_stringifiedRequiredNfsVolumesMetadata job' = None
      \<and> waitForNfsVolumesMetadataUpdated sample_getVm_updated h' job' =
          Some (Callback (Some (new_Error
                  ''job.stringifiedRequiredNfsVolumesMetadata must be a string'')) None,
                0, []))"
  by (simp add: buildNfsVolumesMetadata_def sample_job_with_volume_def sample_job_def
        sample_vm_def sample_heap_def deepCopy_def obj_keys_def sample_volume_def obj_get_def
        sample_lib_def sample_stringify_def heap_set_def
        waitForNfsVolumesMetadataUpdated_def)

text \<open>
  When the job does carry the expected string, the poll succeeds on the first VM whose
  \<^verbatim>\<open>docker:nfsvolumes\<close> is that string.
\<close>

lemma waitForNfsVolumesMetadataUpdated_with_expected_string:
  "waitForNfsVolumesMetadataUpdated sample_getVm_updated
     \<lparr>cells = (\<lambda>a. [])(1 := [(''docker:nfsvolumes'', JStr ''[]'')]), next_addr = 2\<rparr>
     ((sample_job_with_volume ''vol-1'' ''ready'')
        \<lparr>job_stringifiedRequiredNfsVolumesMetadata := Some (JStr ''[]'')\<rparr>) =
   Some (Callback None (Some ''NFS volumes metadata updated successfully''), 1, [])"
  apply (simp add: waitForNfsVolumesMetadataUpdated_def sample_job_with_volume_def
      sample_job_def obj_keys_def)
  apply (subst checkMetadataUpdated.simps)
  apply (simp add: sample_getVm_updated_def sample_vm_def heap_set_def sample_heap_def
      obj_get_def)
  done

end
